theory Spec2Isabelle
  imports Complex_Main
begin

unbundle bit_operations_syntax

section \<open>Values shared by all modules\<close>

text \<open>
  Python exceptions as values. The source only distinguishes \<open>KeyboardInterrupt\<close> from
  the instances of \<open>Exception\<close> (its handlers are \<open>except Exception as e\<close> and
  \<open>except KeyboardInterrupt\<close>); the string is \<open>str(e)\<close>.
\<close>

datatype exn = KeyboardInterrupt | Exception string

datatype 'a outcome = Returns 'a | Raises exn

type_synonym color = "nat \<times> nat \<times> nat"

text \<open>Decimal rendering of integers, as \<open>str(n)\<close> and f-strings produce it.\<close>

definition digit_char :: "nat \<Rightarrow> char" where
  "digit_char d = ''0123456789'' ! d"

fun str_nat :: "nat \<Rightarrow> string" where
  "str_nat n = (if n < 10 then [digit_char n] else str_nat (n div 10) @ [digit_char (n mod 10)])"

declare str_nat.simps [simp del]

definition str_int :: "int \<Rightarrow> string" where
  "str_int i = (if i < 0 then CHR ''-'' # str_nat (nat (- i)) else str_nat (nat i))"

section \<open>config.py\<close>

text \<open>The float constants are written as the decimal fractions of the source. The program
  hands them on to the model, to OpenCV and to \<open>print\<close> and computes nothing with them.\<close>

record config =
  MODEL_NAME :: string
  MODEL_PATH :: string
  CONFIDENCE_THRESHOLD :: real
  IOU_THRESHOLD :: real
  CAMERA_ID :: int
  CAMERA_WIDTH :: int
  CAMERA_HEIGHT :: int
  CAMERA_FPS :: int
  SHOW_FPS :: bool
  SHOW_CONFIDENCE :: bool
  SHOW_LABELS :: bool
  WINDOW_NAME :: string
  BOX_COLOR :: color
  TEXT_COLOR :: color
  TEXT_BG_COLOR :: color
  FPS_COLOR :: color
  FONT :: int
  FONT_SCALE :: real
  FONT_THICKNESS :: int
  BOX_THICKNESS :: int
  ENABLE_RECORDING :: bool
  OUTPUT_DIR :: string
  SAVE_DETECTIONS :: bool
  USE_GPU :: bool

definition Config :: config where
  "Config = \<lparr>
     MODEL_NAME = ''yolov8n.pt'',
     MODEL_PATH = ''models/yolov8n.pt'',
     CONFIDENCE_THRESHOLD = 1 / 2,
     IOU_THRESHOLD = 45 / 100,
     CAMERA_ID = 0,
     CAMERA_WIDTH = 640,
     CAMERA_HEIGHT = 480,
     CAMERA_FPS = 30,
     SHOW_FPS = True,
     SHOW_CONFIDENCE = True,
     SHOW_LABELS = True,
     WINDOW_NAME = ''Object Detection - YOLOv8'',
     BOX_COLOR = (0, 255, 0),
     TEXT_COLOR = (255, 255, 255),
     TEXT_BG_COLOR = (0, 255, 0),
     FPS_COLOR = (0, 255, 255),
     FONT = 0,
     FONT_SCALE = 6 / 10,
     FONT_THICKNESS = 2,
     BOX_THICKNESS = 2,
     ENABLE_RECORDING = False,
     OUTPUT_DIR = ''outputs'',
     SAVE_DETECTIONS = False,
     USE_GPU = True \<rparr>"

section \<open>Frames, the object store and the observable trace\<close>

text \<open>
  A frame is a numpy array of shape \<open>(rows, cols, 3)\<close>. Its pixels are kept as the captured
  picture \<open>raw\<close> together with the drawing primitives applied to it so far, oldest first,
  each with the coordinates the source passes to OpenCV.
\<close>

datatype draw_op =
    Rectangle "int \<times> int" "int \<times> int" color int
  | PutText string "int \<times> int" int real color int
  | Circle "int \<times> int" int color int

record image =
  rows :: int
  cols :: int
  raw :: nat
  drawn :: "draw_op list"

text \<open>
  Everything the program does to the outside: console output, calls on the capture device,
  the video writer, image files and the display window, in program order.
\<close>

datatype event =
    Print string
  | CapRelease
  | Sleep nat
  | WriterOpen string string int "int \<times> int"
  | WriterWrite image
  | WriterRelease
  | ImWrite string image
  | ImShow string image
  | DestroyAllWindows
  | MakeDirs string

text \<open>
  Frames are mutable objects that the source passes by reference, so they live in a store:
  \<open>heap\<close> maps an address to the array stored there, and the addresses below
  \<open>next_free\<close> are the ones handed out so far.
\<close>

type_synonym addr = nat

record world =
  heap :: "addr \<Rightarrow> image"
  next_free :: addr
  trace :: "event list"

definition emit :: "event \<Rightarrow> world \<Rightarrow> world" where
  "emit e w = w\<lparr>trace := trace w @ [e]\<rparr>"

definition print :: "string \<Rightarrow> world \<Rightarrow> world" where
  "print s w = emit (Print s) w"

definition alloc :: "image \<Rightarrow> world \<Rightarrow> addr \<times> world" where
  "alloc img w =
     (next_free w, w\<lparr>heap := (heap w)(next_free w := img), next_free := Suc (next_free w)\<rparr>)"

definition draw :: "addr \<Rightarrow> draw_op \<Rightarrow> world \<Rightarrow> world" where
  "draw a op w = w\<lparr>heap := (heap w)(a := (heap w a)\<lparr>drawn := drawn (heap w a) @ [op]\<rparr>)\<rparr>"

section \<open>camera_handler.py\<close>

text \<open>
  A \<open>cv2.VideoCapture\<close> object: whether \<open>isOpened()\<close> holds, and what \<open>get\<close> reports for
  width, height and FPS after the three \<open>set\<close> calls (the format negotiated with the device).
\<close>

record capture =
  isOpened :: bool
  actual_width :: int
  actual_height :: int
  actual_fps :: int
  backend :: string

record camera_handler =
  camera_id :: int
  cam_config :: config
  cap :: "capture option"
  is_opened :: bool

text \<open>\<open>vc\<close> is what \<open>cv2.VideoCapture(self.camera_id)\<close> does when it is called.\<close>

definition initialize_camera ::
  "capture outcome \<Rightarrow> camera_handler \<Rightarrow> world \<Rightarrow> bool outcome \<times> camera_handler \<times> world" where
  "initialize_camera vc c w =
     (let w1 = print (''Initializing camera '' @ str_int (camera_id c) @ ''...'') w in
      case vc of
        Raises KeyboardInterrupt \<Rightarrow> (Raises KeyboardInterrupt, c, w1)
      | Raises (Exception e) \<Rightarrow>
          (Returns False, c\<lparr>is_opened := False\<rparr>, print (''Error initializing camera: '' @ e) w1)
      | Returns k \<Rightarrow>
          (let c1 = c\<lparr>cap := Some k\<rparr> in
           if \<not> isOpened k
           then (Returns False, c1, print (''Failed to open camera '' @ str_int (camera_id c)) w1)
           else
             (let w2 = print ''Camera initialized successfully!'' w1;
                  w3 = print (''Resolution: '' @ str_int (actual_width k) @ ''x''
                              @ str_int (actual_height k)) w2;
                  w4 = print (''FPS: '' @ str_int (actual_fps k)) w3
              in (Returns True, c1\<lparr>is_opened := True\<rparr>, w4))))"

text \<open>The constructor: \<open>cap = None\<close>, \<open>is_opened = False\<close>, then \<open>_initialize_camera\<close>,
  whose boolean result is dropped.\<close>

definition CameraHandler ::
  "capture outcome \<Rightarrow> int \<Rightarrow> config \<Rightarrow> world \<Rightarrow> camera_handler outcome \<times> world" where
  "CameraHandler vc cid cfg w =
     (case initialize_camera vc
             \<lparr>camera_id = cid, cam_config = cfg, cap = None, is_opened = False\<rparr> w of
        (Raises e, c, w') \<Rightarrow> (Raises e, w')
      | (Returns b, c, w') \<Rightarrow> (Returns c, w'))"

text \<open>\<open>rd\<close> is what \<open>self.cap.read()\<close> does when it is called.\<close>

type_synonym picture = "int \<times> int \<times> nat"

definition read_frame ::
  "(bool \<times> picture option) outcome \<Rightarrow> camera_handler \<Rightarrow> world
     \<Rightarrow> (bool \<times> addr option) outcome \<times> world" where
  "read_frame rd c w =
     (if \<not> is_opened c \<or> cap c = None then (Returns (False, None), w)
      else case rd of
        Raises KeyboardInterrupt \<Rightarrow> (Raises KeyboardInterrupt, w)
      | Raises (Exception e) \<Rightarrow> (Returns (False, None), print (''Error reading frame: '' @ e) w)
      | Returns (ret, frame) \<Rightarrow>
          if \<not> ret then (Returns (False, None), print ''Failed to read frame from camera'' w)
          else (case frame of
                  None \<Rightarrow> (Returns (True, None), w)
                | Some (h, wd, p) \<Rightarrow>
                    (let (a, w') = alloc \<lparr>rows = h, cols = wd, raw = p, drawn = []\<rparr> w
                     in (Returns (True, Some a), w'))))"

definition release :: "camera_handler \<Rightarrow> world \<Rightarrow> camera_handler \<times> world" where
  "release c w =
     (case cap c of
        None \<Rightarrow> (c, w)
      | Some k \<Rightarrow>
          (c\<lparr>cap := Some (k\<lparr>isOpened := False\<rparr>), is_opened := False\<rparr>,
           print ''Camera released'' (emit CapRelease w)))"

definition reconnect ::
  "capture outcome \<Rightarrow> camera_handler \<Rightarrow> world \<Rightarrow> bool outcome \<times> camera_handler \<times> world" where
  "reconnect vc c w =
     (let w1 = print ''Attempting to reconnect camera...'' w;
          (c1, w2) = release c w1;
          w3 = emit (Sleep 1) w2
      in initialize_camera vc c1 w3)"

definition is_available :: "camera_handler \<Rightarrow> bool" where
  "is_available c =
     (is_opened c \<and> cap c \<noteq> None \<and> (case cap c of Some k \<Rightarrow> isOpened k | None \<Rightarrow> False))"

text \<open>\<open>probe i\<close> tells whether \<open>cv2.VideoCapture(i).isOpened()\<close> holds.\<close>

fun list_available_cameras_from :: "(int \<Rightarrow> bool) \<Rightarrow> int \<Rightarrow> nat \<Rightarrow> int list" where
  "list_available_cameras_from probe i 0 = []"
| "list_available_cameras_from probe i (Suc n) =
     (if probe i then i # list_available_cameras_from probe (i + 1) n
      else list_available_cameras_from probe (i + 1) n)"

definition list_available_cameras :: "(int \<Rightarrow> bool) \<Rightarrow> nat \<Rightarrow> int list" where
  "list_available_cameras probe max_cameras = list_available_cameras_from probe 0 max_cameras"

section \<open>detector.py\<close>

text \<open>
  What the program uses of OpenCV and of Python's floats.
  \<^item> \<open>getTextSize label font scale thickness\<close> is \<open>((width, height), baseline)\<close>.
  \<^item> \<open>format_f n x\<close> is \<open>f"{x:.nf}"\<close>, \<open>format_pct n x\<close> is \<open>f"{x:.n%}"\<close> and
    \<open>str_float x\<close> is \<open>str(x)\<close>.
  \<^item> A float is the real number it denotes, so comparing two floats is comparing the reals.
    Float arithmetic rounds: \<open>fsub a b\<close> is the float that \<open>a - b\<close> gives for floats
    \<open>a\<close> and \<open>b\<close>, and \<open>fdiv n x\<close> the float that \<open>n / x\<close> gives for an int \<open>n\<close> and
    a float \<open>x\<close>. Nothing is assumed about them.
  \<^item> \<open>raster op\<close> holds of the pixels that OpenCV's rasteriser covers for an outline, a text
    or a circle, with its thickness and glyphs, before the figure is clipped to the image.
\<close>

record external =
  getTextSize :: "string \<Rightarrow> int \<Rightarrow> real \<Rightarrow> int \<Rightarrow> (int \<times> int) \<times> int"
  format_f :: "nat \<Rightarrow> real \<Rightarrow> string"
  format_pct :: "nat \<Rightarrow> real \<Rightarrow> string"
  str_float :: "real \<Rightarrow> string"
  fsub :: "real \<Rightarrow> real \<Rightarrow> real"
  fdiv :: "int \<Rightarrow> real \<Rightarrow> real"
  raster :: "draw_op \<Rightarrow> int \<times> int \<Rightarrow> bool"

text \<open>\<open>int(x)\<close> on a float truncates towards zero.\<close>

definition py_int :: "real \<Rightarrow> int" where
  "py_int x = (if 0 \<le> x then \<lfloor>x\<rfloor> else \<lceil>x\<rceil>)"

text \<open>A loaded YOLO model is used through its label table \<open>names\<close> (a dict from class id
  to name); one box of a result carries \<open>xyxy[0]\<close>, \<open>conf[0]\<close> and \<open>cls[0]\<close>.\<close>

record yolo =
  names :: "(int \<times> string) list"

record box =
  xyxy :: "real \<times> real \<times> real \<times> real"
  conf :: real
  cls :: real

record detection =
  bbox :: "int \<times> int \<times> int \<times> int"
  confidence :: real
  class_id :: int
  class_name :: string

record object_detector =
  det_config :: config
  model_path :: string
  model :: "yolo option"
  class_names :: "(int \<times> string) list"
  fps :: real
  frame_count :: int
  start_time :: real

text \<open>
  \<open>ld1\<close> is what \<open>YOLO(self.model_path)\<close> does and \<open>ld2\<close> what the fallback
  \<open>YOLO(Config.MODEL_NAME)\<close> in the handler does; an exception of the fallback leaves
  \<open>_load_model\<close>.
\<close>

definition load_model ::
  "yolo outcome \<Rightarrow> yolo outcome \<Rightarrow> object_detector \<Rightarrow> world \<Rightarrow> object_detector outcome \<times> world" where
  "load_model ld1 ld2 d w =
     (let w1 = print (''Loading model: '' @ model_path d) w in
      case ld1 of
        Returns m \<Rightarrow>
          (let d1 = d\<lparr>model := Some m, class_names := names m\<rparr>;
               w2 = print ''Model loaded successfully!'' w1;
               w3 = print (''Available classes: '' @ str_nat (length (class_names d1))) w2;
               w4 = (if USE_GPU (det_config d1) then print ''Using GPU acceleration (if available)'' w3
                     else print ''Using CPU only'' w3)
           in (Returns d1, w4))
      | Raises KeyboardInterrupt \<Rightarrow> (Raises KeyboardInterrupt, w1)
      | Raises (Exception e) \<Rightarrow>
          (let w2 = print (''Error loading model: '' @ e) w1;
               w3 = print ''Model will be downloaded automatically on first use.'' w2
           in case ld2 of
                Raises e2 \<Rightarrow> (Raises e2, w3)
              | Returns m \<Rightarrow> (Returns (d\<lparr>model := Some m, class_names := names m\<rparr>), w3)))"

text \<open>The constructor; \<open>now\<close> is the reading of \<open>time.time()\<close>.\<close>

definition ObjectDetector ::
  "yolo outcome \<Rightarrow> yolo outcome \<Rightarrow> real \<Rightarrow> string option \<Rightarrow> config \<Rightarrow> world
     \<Rightarrow> object_detector outcome \<times> world" where
  "ObjectDetector ld1 ld2 now mp cfg w =
     load_model ld1 ld2
       \<lparr>det_config = cfg,
        model_path = (case mp of Some p \<Rightarrow> if p = [] then MODEL_PATH cfg else p | None \<Rightarrow> MODEL_PATH cfg),
        model = None, class_names = [], fps = 0, frame_count = 0, start_time = now\<rparr> w"

text \<open>
  The two nested loops of \<open>detect_objects\<close> that turn boxes into detection records. A class
  id missing from the label table raises \<open>KeyError\<close>, whose \<open>str\<close> is the key.
\<close>

fun boxes_loop :: "(int \<times> string) list \<Rightarrow> box list \<Rightarrow> detection list \<Rightarrow> detection list outcome" where
  "boxes_loop cn [] detections = Returns detections"
| "boxes_loop cn (b # boxes) detections =
     (let (x1, y1, x2, y2) = xyxy b;
          cf = conf b;
          cid = py_int (cls b)
      in case map_of cn cid of
           None \<Rightarrow> Raises (Exception (str_int cid))
         | Some cname \<Rightarrow>
             boxes_loop cn boxes
               (detections @ [\<lparr>bbox = (py_int x1, py_int y1, py_int x2, py_int y2),
                                confidence = cf, class_id = cid, class_name = cname\<rparr>]))"

fun results_loop :: "(int \<times> string) list \<Rightarrow> box list list \<Rightarrow> detection list \<Rightarrow> detection list outcome" where
  "results_loop cn [] detections = Returns detections"
| "results_loop cn (boxes # results) detections =
     (case boxes_loop cn boxes detections of
        Raises e \<Rightarrow> Raises e
      | Returns detections' \<Rightarrow> results_loop cn results detections')"

fun draw_annotations :: "external \<Rightarrow> config \<Rightarrow> addr \<Rightarrow> detection list \<Rightarrow> world \<Rightarrow> world" where
  "draw_annotations X cfg frame [] w = w"
| "draw_annotations X cfg frame (det # dets) w =
     (let (x1, y1, x2, y2) = bbox det;
          w1 = draw frame (Rectangle (x1, y1) (x2, y2) (BOX_COLOR cfg) (BOX_THICKNESS cfg)) w;
          label = (if SHOW_CONFIDENCE cfg
                   then class_name det @ '': '' @ format_f X 2 (confidence det)
                   else class_name det);
          ((label_width, label_height), baseline) =
             getTextSize X label (FONT cfg) (FONT_SCALE cfg) (FONT_THICKNESS cfg);
          w2 = draw frame (Rectangle (x1, y1 - label_height - baseline - 5) (x1 + label_width, y1)
                             (TEXT_BG_COLOR cfg) (- 1)) w1;
          w3 = draw frame (PutText label (x1, y1 - baseline - 5) (FONT cfg) (FONT_SCALE cfg)
                             (TEXT_COLOR cfg) (FONT_THICKNESS cfg)) w2
      in draw_annotations X cfg frame dets w3)"

text \<open>\<open>frame.copy()\<close>: a new array with the same contents.\<close>

definition copy :: "addr \<Rightarrow> world \<Rightarrow> addr \<times> world" where
  "copy a w = alloc (heap w a) w"

text \<open>\<open>res\<close> is what the call \<open>self.model(frame, conf=..., iou=..., verbose=False)\<close> does:
  it returns a list of results, each a list of boxes, or raises.\<close>

definition detect_objects ::
  "external \<Rightarrow> box list list outcome \<Rightarrow> object_detector \<Rightarrow> addr \<Rightarrow> world
     \<Rightarrow> (addr \<times> detection list) outcome \<times> world" where
  "detect_objects X res d frame w =
     (case model d of
        None \<Rightarrow> (Returns (frame, []), w)
      | Some m \<Rightarrow>
          (case res of
             Raises KeyboardInterrupt \<Rightarrow> (Raises KeyboardInterrupt, w)
           | Raises (Exception e) \<Rightarrow> (Returns (frame, []), print (''Detection error: '' @ e) w)
           | Returns results \<Rightarrow>
               (case results_loop (class_names d) results [] of
                  Raises KeyboardInterrupt \<Rightarrow> (Raises KeyboardInterrupt, w)
                | Raises (Exception e) \<Rightarrow> (Returns (frame, []), print (''Detection error: '' @ e) w)
                | Returns detections \<Rightarrow>
                    (let (a, w1) = copy frame w;
                         w2 = draw_annotations X (det_config d) a detections w1
                     in (Returns (a, detections), w2)))))"

text \<open>\<open>t1\<close> and \<open>t2\<close> are the readings of the two calls of \<open>time.time()\<close>. The
  subtraction and the division are the float operations; the test \<open>elapsed_time > 1.0\<close>
  compares the float that the subtraction gave.\<close>

definition calculate_fps ::
  "external \<Rightarrow> real \<Rightarrow> real \<Rightarrow> object_detector \<Rightarrow> real \<times> object_detector" where
  "calculate_fps X t1 t2 d =
     (let d1 = d\<lparr>frame_count := frame_count d + 1\<rparr>;
          elapsed_time = fsub X t1 (start_time d1)
      in if elapsed_time > 1
         then (let d2 = d1\<lparr>fps := fdiv X (frame_count d1) elapsed_time\<rparr>;
                   d3 = d2\<lparr>frame_count := 0\<rparr>;
                   d4 = d3\<lparr>start_time := t2\<rparr>
               in (fps d4, d4))
         else (fps d1, d1))"

definition draw_fps ::
  "external \<Rightarrow> real \<Rightarrow> real \<Rightarrow> object_detector \<Rightarrow> addr \<Rightarrow> world \<Rightarrow> addr \<times> object_detector \<times> world" where
  "draw_fps X t1 t2 d frame w =
     (let (f, d1) = calculate_fps X t1 t2 d;
          fps_text = ''FPS: '' @ format_f X 1 f;
          cfg = det_config d1;
          w1 = draw frame (PutText fps_text (10, 30) (FONT cfg) (FONT_SCALE cfg) (FPS_COLOR cfg)
                             (FONT_THICKNESS cfg)) w
      in (frame, d1, w1))"

record model_info =
  mi_model_path :: string
  mi_num_classes :: nat
  mi_class_names :: "(int \<times> string) list"
  mi_confidence_threshold :: real

definition get_model_info :: "object_detector \<Rightarrow> model_info" where
  "get_model_info d =
     \<lparr>mi_model_path = model_path d, mi_num_classes = length (class_names d),
      mi_class_names = class_names d,
      mi_confidence_threshold = CONFIDENCE_THRESHOLD (det_config d)\<rparr>"

section \<open>main.py\<close>

definition nl :: string where
  "nl = [CHR 0x0A]"

definition ord :: "char \<Rightarrow> int" where
  "ord c = of_char c"

text \<open>\<open>datetime.now()\<close> and \<open>strftime("%Y%m%d_%H%M%S")\<close>: the year in four digits, the other
  fields in two, zero-padded.\<close>

record datetime =
  year :: nat
  month :: nat
  day :: nat
  hour :: nat
  minute :: nat
  second :: nat

definition zero_pad :: "nat \<Rightarrow> nat \<Rightarrow> string" where
  "zero_pad n v = replicate (n - length (str_nat v)) (CHR ''0'') @ str_nat v"

definition strftime :: "datetime \<Rightarrow> string" where
  "strftime t =
     zero_pad 4 (year t) @ zero_pad 2 (month t) @ zero_pad 2 (day t) @ ''_''
     @ zero_pad 2 (hour t) @ zero_pad 2 (minute t) @ zero_pad 2 (second t)"

text \<open>An open \<open>cv2.VideoWriter\<close>, with the arguments it was constructed from.\<close>

record writer =
  vw_filename :: string
  vw_fourcc :: string
  vw_fps :: int
  vw_frame_size :: "int \<times> int"

record object_detection_system =
  camera :: camera_handler
  detector :: object_detector
  is_running :: bool
  video_writer :: "writer option"

definition create_directories :: "config \<Rightarrow> world \<Rightarrow> world" where
  "create_directories cfg w = emit (MakeDirs (OUTPUT_DIR cfg)) (emit (MakeDirs ''models'') w)"

definition display_system_info :: "external \<Rightarrow> object_detection_system \<Rightarrow> world \<Rightarrow> world" where
  "display_system_info X s w =
     (let w1 = print (nl @ ''[SYSTEM INFORMATION]'') w;
          c = camera s;
          w2 = (case cap c of
                  None \<Rightarrow> w1
                | Some k \<Rightarrow>
                    if \<not> is_opened c then w1
                    else print (''Backend: '' @ backend k)
                          (print (''FPS: '' @ str_int (actual_fps k))
                            (print (''Resolution: '' @ str_int (actual_width k) @ ''x''
                                      @ str_int (actual_height k))
                              (print (''Camera ID: '' @ str_int (camera_id c)) w1))));
          mi = get_model_info (detector s);
          w3 = print (nl @ ''Model: '' @ mi_model_path mi) w2;
          w4 = print (''Classes: '' @ str_nat (mi_num_classes mi)) w3;
          w5 = print (''Confidence Threshold: '' @ str_float X (mi_confidence_threshold mi)) w4;
          w6 = print (nl @ ''[CONTROLS]'') w5;
          w7 = print (''Press '' @ [CHR 0x27] @ ''q'' @ [CHR 0x27] @ '' or '' @ [CHR 0x27] @ ''ESC''
                      @ [CHR 0x27] @ '' to quit'') w6;
          w8 = print (''Press '' @ [CHR 0x27] @ ''s'' @ [CHR 0x27] @ '' to save current frame'') w7;
          w9 = print (''Press '' @ [CHR 0x27] @ ''r'' @ [CHR 0x27] @ '' to toggle recording'') w8;
          w10 = print (''Press '' @ [CHR 0x27] @ ''i'' @ [CHR 0x27] @ '' to show detection info'') w9;
          w11 = print (replicate 60 (CHR ''='')) w10
      in print [] w11)"

text \<open>The constructor. \<open>vc\<close>, \<open>ld1\<close>, \<open>ld2\<close> and \<open>clock\<close> are what opening the camera,
  loading the model (first try and fallback) and \<open>time.time()\<close> do.\<close>

definition ObjectDetectionSystem ::
  "external \<Rightarrow> capture outcome \<Rightarrow> yolo outcome \<Rightarrow> yolo outcome \<Rightarrow> real \<Rightarrow> int \<Rightarrow> world
     \<Rightarrow> object_detection_system outcome \<times> world" where
  "ObjectDetectionSystem X vc ld1 ld2 clock cid w =
     (let w1 = print (replicate 60 (CHR ''='')) w;
          w2 = print ''OBJECT DETECTION SYSTEM - YOLOv8'' w1;
          w3 = print (replicate 60 (CHR ''='')) w2;
          w4 = create_directories Config w3
      in case CameraHandler vc cid Config w4 of
           (Raises e, w5) \<Rightarrow> (Raises e, w5)
         | (Returns c, w5) \<Rightarrow>
             (case ObjectDetector ld1 ld2 clock None Config w5 of
                (Raises e, w6) \<Rightarrow> (Raises e, w6)
              | (Returns d, w6) \<Rightarrow>
                  (let s = \<lparr>camera = c, detector = d, is_running = False, video_writer = None\<rparr>
                   in (Returns s, display_system_info X s w6))))"

definition save_frame :: "datetime \<Rightarrow> addr \<Rightarrow> detection list \<Rightarrow> world \<Rightarrow> world" where
  "save_frame now frame detections w =
     (let timestamp = strftime now;
          filename = OUTPUT_DIR Config @ ''/detection_'' @ timestamp @ ''.jpg'';
          w1 = emit (ImWrite filename (heap w frame)) w;
          w2 = print (''Frame saved: '' @ filename) w1
      in print (''Detections: '' @ str_nat (length detections) @ '' objects'') w2)"

definition toggle_recording ::
  "datetime \<Rightarrow> addr \<Rightarrow> object_detection_system \<Rightarrow> world \<Rightarrow> object_detection_system \<times> world" where
  "toggle_recording now frame s w =
     (case video_writer s of
        None \<Rightarrow>
          (let timestamp = strftime now;
               filename = OUTPUT_DIR Config @ ''/recording_'' @ timestamp @ ''.mp4'';
               fourcc = ''mp4v'';
               fps = CAMERA_FPS Config;
               frame_size = (cols (heap w frame), rows (heap w frame));
               w1 = emit (WriterOpen filename fourcc fps frame_size) w
           in (s\<lparr>video_writer := Some \<lparr>vw_filename = filename, vw_fourcc = fourcc, vw_fps = fps,
                                        vw_frame_size = frame_size\<rparr>\<rparr>,
               print (''Recording started: '' @ filename) w1))
      | Some vw \<Rightarrow>
          (s\<lparr>video_writer := None\<rparr>, print ''Recording stopped'' (emit WriterRelease w)))"

fun detection_lines :: "external \<Rightarrow> nat \<Rightarrow> detection list \<Rightarrow> world \<Rightarrow> world" where
  "detection_lines X i [] w = w"
| "detection_lines X i (det # dets) w =
     detection_lines X (Suc i) dets
       (print (str_nat i @ ''. '' @ class_name det @ '' - Confidence: ''
               @ format_pct X 2 (confidence det)) w)"

definition show_detection_info :: "external \<Rightarrow> detection list \<Rightarrow> world \<Rightarrow> world" where
  "show_detection_info X detections w =
     (let w1 = print (nl @ replicate 60 (CHR ''='')) w;
          w2 = print (''CURRENT DETECTIONS: '' @ str_nat (length detections)) w1;
          w3 = print (replicate 60 (CHR ''='')) w2;
          w4 = (if detections \<noteq> [] then detection_lines X 1 detections w3
                else print ''No objects detected'' w3)
      in print (replicate 60 (CHR ''='') @ nl) w4)"

definition cleanup :: "object_detection_system \<Rightarrow> world \<Rightarrow> object_detection_system \<times> world" where
  "cleanup s w =
     (let w1 = print (nl @ ''Cleaning up...'') w;
          w2 = (if video_writer s \<noteq> None then emit WriterRelease w1 else w1);
          (c, w3) = release (camera s) w2;
          w4 = emit DestroyAllWindows w3;
          w5 = print ''System shutdown complete'' w4
      in (s\<lparr>camera := c\<rparr>, print (replicate 60 (CHR ''='')) w5))"

text \<open>
  What the outside world does during one iteration of the loop in \<open>run\<close>: the result of
  \<open>cap.read()\<close>, of \<open>cv2.VideoCapture\<close> should the handler reconnect, of the model call,
  the two clock readings of \<open>calculate_fps\<close>, the result of \<open>video_writer.write\<close>, the
  value of \<open>cv2.waitKey(1)\<close> and the wall-clock time of \<open>datetime.now()\<close>.
\<close>

record tick_input =
  cap_read :: "(bool \<times> picture option) outcome"
  video_capture :: "capture outcome"
  inference :: "box list list outcome"
  clock1 :: real
  clock2 :: real
  writer_write :: "unit outcome"
  waitKey :: int
  now :: datetime

text \<open>How an iteration ends: control reaches the next iteration (also through
  \<open>continue\<close>), a \<open>break\<close>, or an exception that leaves the loop.\<close>

datatype flow = Next | Break | Raise exn

text \<open>The body of \<open>if not ret or frame is None\<close>.\<close>

definition failed_read ::
  "tick_input \<Rightarrow> object_detection_system \<Rightarrow> world \<Rightarrow> flow \<times> object_detection_system \<times> world" where
  "failed_read i s w =
     (let w1 = print ''Failed to read frame. Attempting reconnection...'' w in
      case reconnect (video_capture i) (camera s) w1 of
        (Raises e, c, w2) \<Rightarrow> (Raise e, s\<lparr>camera := c\<rparr>, w2)
      | (Returns ok, c, w2) \<Rightarrow>
          if \<not> ok
          then (Break, s\<lparr>camera := c\<rparr>, print ''Could not reconnect to camera. Exiting...'' w2)
          else (Next, s\<lparr>camera := c\<rparr>, w2))"

text \<open>The keyboard dispatch at the end of an iteration.\<close>

definition handle_key ::
  "external \<Rightarrow> tick_input \<Rightarrow> addr \<Rightarrow> detection list \<Rightarrow> object_detection_system \<Rightarrow> world
     \<Rightarrow> flow \<times> object_detection_system \<times> world" where
  "handle_key X i annotated_frame detections s w =
     (let key = waitKey i AND 0xFF in
      if key = ord (CHR ''q'') \<or> key = 27
      then (Break, s, print (nl @ ''Stopping detection...'') w)
      else if key = ord (CHR ''s'')
      then (Next, s, save_frame (now i) annotated_frame detections w)
      else if key = ord (CHR ''r'')
      then (let (s1, w1) = toggle_recording (now i) annotated_frame s w in (Next, s1, w1))
      else if key = ord (CHR ''i'')
      then (Next, s, show_detection_info X detections w)
      else (Next, s, w))"

text \<open>The rest of an iteration once a frame has been read: detection, the overlays,
  recording, display and the keyboard.\<close>

definition process_frame ::
  "external \<Rightarrow> tick_input \<Rightarrow> addr \<Rightarrow> object_detection_system \<Rightarrow> world
     \<Rightarrow> flow \<times> object_detection_system \<times> world" where
  "process_frame X i frame s w =
     (case detect_objects X (inference i) (detector s) frame w of
        (Raises e, w1) \<Rightarrow> (Raise e, s, w1)
      | (Returns (af, detections), w1) \<Rightarrow>
          (let (annotated_frame, d, w2) =
                 (if SHOW_FPS Config then draw_fps X (clock1 i) (clock2 i) (detector s) af w1
                  else (af, detector s, w1));
               s1 = s\<lparr>detector := d\<rparr>;
               detection_text = ''Objects: '' @ str_nat (length detections);
               w3 = draw annotated_frame
                      (PutText detection_text (10, 60) (FONT Config) (FONT_SCALE Config)
                         (FPS_COLOR Config) (FONT_THICKNESS Config)) w2
           in case video_writer s1 of
                None \<Rightarrow>
                  handle_key X i annotated_frame detections s1
                    (emit (ImShow (WINDOW_NAME Config) (heap w3 annotated_frame)) w3)
              | Some vw \<Rightarrow>
                  (case writer_write i of
                     Raises e \<Rightarrow> (Raise e, s1, w3)
                   | Returns u \<Rightarrow>
                       (let w4 = emit (WriterWrite (heap w3 annotated_frame)) w3;
                            w5 = draw annotated_frame
                                   (Circle (cols (heap w4 annotated_frame) - 30, 30) 10
                                      (0, 0, 255) (- 1)) w4
                        in handle_key X i annotated_frame detections s1
                             (emit (ImShow (WINDOW_NAME Config) (heap w5 annotated_frame)) w5)))))"

text \<open>One iteration of \<open>while self.is_running\<close>. The two branches that lead to
  \<open>failed_read\<close> are the test \<open>not ret or frame is None\<close>.\<close>

definition tick ::
  "external \<Rightarrow> tick_input \<Rightarrow> object_detection_system \<Rightarrow> world
     \<Rightarrow> flow \<times> object_detection_system \<times> world" where
  "tick X i s w =
     (case read_frame (cap_read i) (camera s) w of
        (Raises e, w1) \<Rightarrow> (Raise e, s, w1)
      | (Returns (ret, frame), w1) \<Rightarrow>
          (case frame of
             None \<Rightarrow> failed_read i s w1
           | Some a \<Rightarrow> if \<not> ret then failed_read i s w1 else process_frame X i a s w1))"

text \<open>
  The loop, run against a script of inputs, one per iteration. The source's loop has no
  bound: it goes on until a \<open>break\<close> or an exception. \<open>None\<close> says that the script is
  used up while the loop is still running.
\<close>

fun loop ::
  "external \<Rightarrow> tick_input list \<Rightarrow> object_detection_system \<Rightarrow> world
     \<Rightarrow> (flow \<times> object_detection_system \<times> world) option" where
  "loop X [] s w = (if is_running s then None else Some (Break, s, w))"
| "loop X (i # inputs) s w =
     (if \<not> is_running s then Some (Break, s, w)
      else case tick X i s w of
             (Next, s', w') \<Rightarrow> loop X inputs s' w'
           | (Break, s', w') \<Rightarrow> Some (Break, s', w')
           | (Raise e, s', w') \<Rightarrow> Some (Raise e, s', w'))"

text \<open>\<open>run\<close>: the availability check, the loop inside \<open>try\<close>, the two handlers and
  \<open>finally\<close>. It always returns normally when it returns.\<close>

definition run ::
  "external \<Rightarrow> tick_input list \<Rightarrow> object_detection_system \<Rightarrow> world
     \<Rightarrow> (object_detection_system \<times> world) option" where
  "run X inputs s w =
     (if \<not> is_available (camera s) then Some (s, print ''ERROR: Camera not available!'' w)
      else
        (let s1 = s\<lparr>is_running := True\<rparr>;
             w1 = print (''Starting detection... (Press '' @ [CHR 0x27] @ ''q'' @ [CHR 0x27]
                         @ '' to quit)'' @ nl) w
         in case loop X inputs s1 w1 of
              None \<Rightarrow> None
            | Some (Next, s2, w2) \<Rightarrow> Some (cleanup s2 w2)
            | Some (Break, s2, w2) \<Rightarrow> Some (cleanup s2 w2)
            | Some (Raise KeyboardInterrupt, s2, w2) \<Rightarrow>
                Some (cleanup s2 (print (nl @ ''Interrupted by user'') w2))
            | Some (Raise (Exception e), s2, w2) \<Rightarrow>
                Some (cleanup s2 (print (nl @ ''Error during detection: '' @ e) w2))))"

text \<open>The parsed command line, and what the outside world does while the system is
  constructed.\<close>

record args =
  arg_camera :: int
  arg_list_cameras :: bool

record startup =
  probe :: "int \<Rightarrow> bool"
  open_camera :: "capture outcome"
  load_first :: "yolo outcome"
  load_fallback :: "yolo outcome"
  clock0 :: real

fun repr_ints :: "int list \<Rightarrow> string" where
  "repr_ints [] = []"
| "repr_ints [x] = str_int x"
| "repr_ints (x # xs) = str_int x @ '', '' @ repr_ints xs"

definition main ::
  "external \<Rightarrow> args \<Rightarrow> startup \<Rightarrow> tick_input list \<Rightarrow> world \<Rightarrow> (unit outcome \<times> world) option" where
  "main X a st inputs w =
     (if arg_list_cameras a
      then (let w1 = print ''Scanning for available cameras...'' w;
                cameras = list_available_cameras (probe st) 5
            in Some (Returns (), print (''Available cameras: ['' @ repr_ints cameras @ '']'') w1))
      else case ObjectDetectionSystem X (open_camera st) (load_first st) (load_fallback st)
                  (clock0 st) (arg_camera a) w of
             (Raises e, w1) \<Rightarrow> Some (Raises e, w1)
           | (Returns system, w1) \<Rightarrow>
               (case run X inputs system w1 of
                  None \<Rightarrow> None
                | Some (s', w2) \<Rightarrow> Some (Returns (), w2)))"

text \<open>
  The exit status of the interpreter for \<open>if __name__ == "__main__": main()\<close>: 0 when
  \<open>main\<close> returns, 1 after an uncaught exception, and 130 after an uncaught
  \<open>KeyboardInterrupt\<close>. The source never calls \<open>sys.exit\<close>.
\<close>

fun exit_code :: "unit outcome \<Rightarrow> int" where
  "exit_code (Returns u) = 0"
| "exit_code (Raises KeyboardInterrupt) = 130"
| "exit_code (Raises (Exception e)) = 1"

section \<open>Notions used to state the properties\<close>

text \<open>Repeated calls of \<open>calculate_fps\<close>, one per pair of clock readings, with the values
  they return.\<close>

fun calculate_fps_calls ::
  "external \<Rightarrow> (real \<times> real) list \<Rightarrow> object_detector \<Rightarrow> real list \<times> object_detector" where
  "calculate_fps_calls X [] d = ([], d)"
| "calculate_fps_calls X ((t1, t2) # ts) d =
     (let (f, d1) = calculate_fps X t1 t2 d;
          (fs, d2) = calculate_fps_calls X ts d1
      in (f # fs, d2))"

text \<open>The three primitives that one pass of the loop in \<open>_draw_annotations\<close> draws for a
  detection: the box, the label background and the label text.\<close>

definition annotation_ops :: "external \<Rightarrow> config \<Rightarrow> detection \<Rightarrow> draw_op list" where
  "annotation_ops X cfg det =
     (let (x1, y1, x2, y2) = bbox det;
          label = (if SHOW_CONFIDENCE cfg
                   then class_name det @ '': '' @ format_f X 2 (confidence det)
                   else class_name det);
          ((label_width, label_height), baseline) =
             getTextSize X label (FONT cfg) (FONT_SCALE cfg) (FONT_THICKNESS cfg)
      in [Rectangle (x1, y1) (x2, y2) (BOX_COLOR cfg) (BOX_THICKNESS cfg),
          Rectangle (x1, y1 - label_height - baseline - 5) (x1 + label_width, y1)
            (TEXT_BG_COLOR cfg) (- 1),
          PutText label (x1, y1 - baseline - 5) (FONT cfg) (FONT_SCALE cfg) (TEXT_COLOR cfg)
            (FONT_THICKNESS cfg)])"






text \<open>The frames that reach the video writer, the image files and the display window, read
  off a trace.\<close>

datatype sink = Written | Saved | Shown

fun sink_frame :: "sink \<Rightarrow> event \<Rightarrow> image list" where
  "sink_frame Written (WriterWrite img) = [img]"
| "sink_frame Saved (ImWrite f img) = [img]"
| "sink_frame Shown (ImShow n img) = [img]"
| "sink_frame k e = []"

definition frames :: "sink \<Rightarrow> event list \<Rightarrow> image list" where
  "frames k es = concat (map (sink_frame k) es)"

fun is_indicator :: "draw_op \<Rightarrow> bool" where
  "is_indicator (Circle p r c t) = True"
| "is_indicator op = False"

text \<open>The overlays of one iteration of \<open>run\<close>: the FPS text that \<open>draw_fps\<close> draws, the
  object count, and the recording indicator.\<close>

definition fps_overlay :: "external \<Rightarrow> tick_input \<Rightarrow> object_detector \<Rightarrow> draw_op" where
  "fps_overlay X i d =
     PutText (''FPS: '' @ format_f X 1 (fst (calculate_fps X (clock1 i) (clock2 i) d))) (10, 30)
       (FONT (det_config d)) (FONT_SCALE (det_config d)) (FPS_COLOR (det_config d))
       (FONT_THICKNESS (det_config d))"

definition count_overlay :: "detection list \<Rightarrow> draw_op" where
  "count_overlay detections =
     PutText (''Objects: '' @ str_nat (length detections)) (10, 60) (FONT Config)
       (FONT_SCALE Config) (FPS_COLOR Config) (FONT_THICKNESS Config)"

definition indicator :: "image \<Rightarrow> draw_op" where
  "indicator img = Circle (cols img - 30, 30) 10 (0, 0, 255) (- 1)"

text \<open>The values that \<open>datetime.now()\<close> can have.\<close>

definition valid_datetime :: "datetime \<Rightarrow> bool" where
  "valid_datetime t =
     (1 \<le> year t \<and> year t \<le> 9999 \<and> 1 \<le> month t \<and> month t \<le> 12 \<and> 1 \<le> day t \<and> day t \<le> 31
      \<and> hour t \<le> 23 \<and> minute t \<le> 59 \<and> second t \<le> 59)"

section \<open>Concrete inputs\<close>

definition blank :: image where
  "blank = \<lparr>rows = 0, cols = 0, raw = 0, drawn = []\<rparr>"

definition world0 :: world where
  "world0 = \<lparr>heap = (\<lambda>a. blank), next_free = 0, trace = []\<rparr>"

definition demo_capture :: capture where
  "demo_capture =
     \<lparr>isOpened = True, actual_width = 640, actual_height = 480, actual_fps = 15,
      backend = ''V4L2''\<rparr>"

definition demo_camera :: camera_handler where
  "demo_camera = \<lparr>camera_id = 0, cam_config = Config, cap = Some demo_capture, is_opened = True\<rparr>"

definition demo_detector :: object_detector where
  "demo_detector =
     \<lparr>det_config = Config, model_path = ''models/yolov8n.pt'',
      model = Some \<lparr>names = [(0, ''person'')]\<rparr>, class_names = [(0, ''person'')],
      fps = 30, frame_count = 0, start_time = 100\<rparr>"

definition demo_system :: object_detection_system where
  "demo_system =
     \<lparr>camera = demo_camera, detector = demo_detector, is_running = True, video_writer = None\<rparr>"

definition demo_writer :: writer where
  "demo_writer =
     \<lparr>vw_filename = ''outputs/recording_20240102_030400.mp4'', vw_fourcc = ''mp4v'', vw_fps = 30,
      vw_frame_size = (640, 480)\<rparr>"

definition demo_now :: datetime where
  "demo_now = \<lparr>year = 2024, month = 1, day = 2, hour = 3, minute = 4, second = 5\<rparr>"

text \<open>A box well inside a 640 by 480 frame as the model reports it, and two detections:
  one on the top edge of the frame and the one of that box.\<close>

definition inner_box :: box where
  "inner_box = \<lparr>xyxy = (200, 150, 300, 400), conf = 73 / 100, cls = 0\<rparr>"


definition inner_detection :: detection where
  "inner_detection =
     \<lparr>bbox = (200, 150, 300, 400), confidence = 73 / 100, class_id = 0,
      class_name = ''person''\<rparr>"

definition camera_frame :: image where
  "camera_frame = \<lparr>rows = 480, cols = 640, raw = 7, drawn = []\<rparr>"

text \<open>An iteration in which the camera delivers a frame, the model finds one person, no key
  is pressed (\<open>waitKey\<close> gives \<open>-1\<close>) and nothing fails.\<close>

definition demo_input :: tick_input where
  "demo_input =
     \<lparr>cap_read = Returns (True, Some (480, 640, 7)),
      video_capture = Returns demo_capture,
      inference = Returns [[inner_box]],
      clock1 = 1005 / 10, clock2 = 1005 / 10,
      writer_write = Returns (),
      waitKey = - 1,
      now = demo_now\<rparr>"

text \<open>The system while recording, and an iteration in which \<open>video_writer.write\<close>
  raises.\<close>

definition recording_system :: object_detection_system where
  "recording_system = demo_system\<lparr>video_writer := Some demo_writer\<rparr>"

definition write_fault_input :: tick_input where
  "write_fault_input = demo_input\<lparr>writer_write := Raises (Exception ''disk full'')\<rparr>"

text \<open>Iterations in which \<open>cap.read()\<close> fails: in the first the device cannot be opened
  again, in the second it can.\<close>

definition read_fault_lost :: tick_input where
  "read_fault_lost =
     demo_input\<lparr>cap_read := Returns (False, None),
                video_capture := Returns (demo_capture\<lparr>isOpened := False\<rparr>)\<rparr>"

definition read_fault_back :: tick_input where
  "read_fault_back = demo_input\<lparr>cap_read := Returns (False, None)\<rparr>"

text \<open>A store in which address 0 holds a frame just read from the camera.\<close>

definition world1 :: world where
  "world1 = world0\<lparr>heap := (heap world0)(0 := camera_frame), next_free := 1\<rparr>"

text \<open>Command lines and start-ups: no device behind the camera id, and a working camera.\<close>

definition run_args :: args where
  "run_args = \<lparr>arg_camera = 0, arg_list_cameras = False\<rparr>"

definition no_camera :: startup where
  "no_camera =
     \<lparr>probe = (\<lambda>i. False),
      open_camera = Returns (demo_capture\<lparr>isOpened := False\<rparr>),
      load_first = Returns \<lparr>names = [(0, ''person'')]\<rparr>,
      load_fallback = Raises (Exception ''not used''),
      clock0 = 100\<rparr>"

definition with_camera :: startup where
  "with_camera = no_camera\<lparr>probe := (\<lambda>i. i = 0 \<or> i = 2), open_camera := Returns demo_capture\<rparr>"

definition quit_input :: tick_input where
  "quit_input = demo_input\<lparr>waitKey := 113\<rparr>"

text \<open>
  Stand-ins for OpenCV's text measurement and rasteriser and for Python's floats. The
  float operations of \<open>demo_external\<close> are the exact ones: the examples that compute with
  it use only small multiples of a quarter, on which the machine's subtraction and
  division are exact as well. Its rasteriser lets a figure cover every pixel.
\<close>

definition demo_external :: external where
  "demo_external =
     \<lparr>getTextSize = (\<lambda>label font scale thickness. ((10 * int (length label), 14), 5)),
      format_f = (\<lambda>n x. if n = 2 then ''0.73'' else ''30.0''),
      format_pct = (\<lambda>n x. ''73.00%''),
      str_float = (\<lambda>x. ''0.5''),
      fsub = (\<lambda>a b. a - b),
      fdiv = (\<lambda>n x. real_of_int n / x),
      raster = (\<lambda>op p. True)\<rparr>"

text \<open>
  The doubles nearest to 1.1 and to 0.1. Their exact difference is \<open>1 + 3 / 2 ^ 55\<close>, which
  is not a double; the machine's subtraction gives 1.0. \<open>rounding_external\<close> subtracts
  as the machine does there.
\<close>

definition double_1_1 :: real where
  "double_1_1 = 2476979795053773 / 2251799813685248"

definition double_0_1 :: real where
  "double_0_1 = 3602879701896397 / 36028797018963968"

definition rounding_external :: external where
  "rounding_external =
     demo_external\<lparr>fsub := (\<lambda>a b. if a = double_1_1 \<and> b = double_0_1 then 1 else a - b)\<rparr>"

section \<open>Verified properties\<close>

subsection \<open>camera_handler.py\<close>

lemma release_state_idem: "fst (release (fst (release c w)) w') = fst (release c w)"
  by (cases "cap c") (simp_all add: release_def)

lemma release_trace:
  "trace (snd (release c w)) =
     trace w @ (case cap c of None \<Rightarrow> [] | Some k \<Rightarrow> [CapRelease, Print ''Camera released''])"
  by (cases "cap c") (simp_all add: release_def print_def emit_def)

lemma release_cap:
  "cap (fst (release c w)) = (case cap c of None \<Rightarrow> None | Some k \<Rightarrow> Some (k\<lparr>isOpened := False\<rparr>))"
  by (cases "cap c") (simp_all add: release_def)

text \<open>
  C6, as the code has it. \<open>release\<close> returns no error and is idempotent on the handler:
  a second call leaves the handler as the first call left it. It never clears \<open>cap\<close>,
  so the guard \<open>self.cap is not None\<close> stays true, and every call on a handler that has
  a capture object calls \<open>cap.release()\<close> on it and prints \<open>Camera released\<close>.
\<close>

theorem release_idempotent_state:
  "fst (release (fst (release c w)) w') = fst (release c w)
   \<and> cap (fst (release c w)) = (case cap c of None \<Rightarrow> None | Some k \<Rightarrow> Some (k\<lparr>isOpened := False\<rparr>))
   \<and> trace (snd (release c w)) =
       trace w @ (case cap c of None \<Rightarrow> [] | Some k \<Rightarrow> [CapRelease, Print ''Camera released''])"
  using release_state_idem release_trace release_cap by blast

text \<open>
  C6, as the claim states it, fails: on a handler with an open capture object, two calls
  of \<open>release\<close> call \<open>cap.release()\<close> twice.
\<close>

theorem release_twice_counterexample:
  "count_list
     (trace (snd (release (fst (release demo_camera world0)) (snd (release demo_camera world0)))))
     CapRelease = 2"
  by (simp add: release_def demo_camera_def world0_def print_def emit_def)

subsection \<open>detector.py\<close>

text \<open>
  C10. With no model loaded, \<open>detect_objects\<close> returns the address it was given, that is
  the caller's own frame object and not a copy, with an empty detection list; it
  does not raise, whatever the backend would do, and it neither draws nor prints.
\<close>

theorem detect_objects_no_model:
  "model d = None \<Longrightarrow> detect_objects X res d frame w = (Returns (frame, []), w)"
  by (simp add: detect_objects_def)

theorem detect_objects_no_model_witness:
  "model (demo_detector\<lparr>model := None\<rparr>) = None
   \<and> detect_objects demo_external (Raises (Exception ''backend down''))
         (demo_detector\<lparr>model := None\<rparr>) 0 world0
       = (Returns (0, []), world0)"
  using detect_objects_no_model [of "demo_detector\<lparr>model := None\<rparr>" demo_external
          "Raises (Exception ''backend down'')" 0 world0]
  by simp

lemma calculate_fps_update:
  "fsub X t1 (start_time d) > 1 \<Longrightarrow> calculate_fps X t1 t2 d =
     (fdiv X (frame_count d + 1) (fsub X t1 (start_time d)),
      d\<lparr>fps := fdiv X (frame_count d + 1) (fsub X t1 (start_time d)), frame_count := 0,
        start_time := t2\<rparr>)"
  by (simp add: calculate_fps_def Let_def)

lemma calculate_fps_keep:
  "\<not> fsub X t1 (start_time d) > 1 \<Longrightarrow> calculate_fps X t1 t2 d =
     (fps d, d\<lparr>frame_count := frame_count d + 1\<rparr>)"
  by (simp add: calculate_fps_def Let_def)

lemma calculate_fps_calls_within:
  "\<forall>t \<in> set ts. fsub X (fst t) (start_time d) \<le> 1 \<Longrightarrow>
     \<forall>f \<in> set (fst (calculate_fps_calls X ts d)). f = fps d"
proof (induction ts arbitrary: d)
  case Nil
  then show ?case by simp
next
  case (Cons t ts)
  obtain t1 t2 where t: "t = (t1, t2)" by (cases t)
  from Cons.prems t have within: "\<not> fsub X t1 (start_time d) > 1" by simp
  let ?d1 = "d\<lparr>frame_count := frame_count d + 1\<rparr>"
  have step: "calculate_fps X t1 t2 d = (fps d, ?d1)"
    using within by (rule calculate_fps_keep)
  have "\<forall>u \<in> set ts. fsub X (fst u) (start_time ?d1) \<le> 1" using Cons.prems by simp
  then have "\<forall>f \<in> set (fst (calculate_fps_calls X ts ?d1)). f = fps ?d1" by (rule Cons.IH)
  then show ?case using step t by (simp add: split_def Let_def)
qed

text \<open>
  C8. A call of \<open>calculate_fps\<close> counts the frame. The elapsed time is the float that the
  subtraction of \<open>start_time\<close> from the clock gives. When it exceeds 1.0 the call sets
  \<open>fps\<close> to the float quotient of the count by the elapsed time, the count to 0 and
  \<open>start_time\<close> to the clock, and returns the new \<open>fps\<close>; otherwise it returns \<open>fps\<close>
  as it was and only the count has changed. So however many calls find an elapsed
  time of at most 1.0 since \<open>start_time\<close>, all of them return the same value. This
  holds whatever the float subtraction and division round to.
\<close>

theorem calculate_fps_window:
  "(fsub X t1 (start_time d) > 1 \<longrightarrow>
      calculate_fps X t1 t2 d =
        (fdiv X (frame_count d + 1) (fsub X t1 (start_time d)),
         d\<lparr>fps := fdiv X (frame_count d + 1) (fsub X t1 (start_time d)), frame_count := 0,
           start_time := t2\<rparr>))
   \<and> (\<not> fsub X t1 (start_time d) > 1 \<longrightarrow>
        calculate_fps X t1 t2 d = (fps d, d\<lparr>frame_count := frame_count d + 1\<rparr>))
   \<and> ((\<forall>t \<in> set ts. fsub X (fst t) (start_time d) \<le> 1) \<longrightarrow>
        (\<forall>f \<in> set (fst (calculate_fps_calls X ts d)). f = fps d))"
  using calculate_fps_update calculate_fps_keep calculate_fps_calls_within by blast

theorem calculate_fps_window_witness:
  "calculate_fps demo_external (203 / 2) 102 (demo_detector\<lparr>frame_count := 44, fps := 29\<rparr>) =
     (30, demo_detector\<lparr>fps := 30, frame_count := 0, start_time := 102\<rparr>)
   \<and> calculate_fps demo_external (201 / 2) 101 (demo_detector\<lparr>frame_count := 44, fps := 29\<rparr>) =
     (29, demo_detector\<lparr>frame_count := 45, fps := 29\<rparr>)
   \<and> calculate_fps rounding_external double_1_1 2
         (demo_detector\<lparr>frame_count := 44, fps := 29, start_time := double_0_1\<rparr>) =
     (29, demo_detector\<lparr>frame_count := 45, fps := 29, start_time := double_0_1\<rparr>)
   \<and> 1 < double_1_1 - double_0_1
   \<and> set (fst (calculate_fps_calls demo_external [(401 / 4, 0), (201 / 2, 0), (101, 0)]
                 (demo_detector\<lparr>frame_count := 44, fps := 29\<rparr>))) \<subseteq> {29}"
proof -
  let ?d = "demo_detector\<lparr>frame_count := 44, fps := 29\<rparr>"
  let ?e = "demo_detector\<lparr>frame_count := 44, fps := 29, start_time := double_0_1\<rparr>"
  let ?ts = "[(401 / 4, 0), (201 / 2, 0), (101, 0)] :: (real \<times> real) list"
  have s: "start_time ?d = 100" "fps ?d = 29" "frame_count ?d = 44"
    by (simp_all add: demo_detector_def)
  have x: "fsub demo_external = (\<lambda>a b. a - b)" "fdiv demo_external = (\<lambda>n x. real_of_int n / x)"
    by (simp_all add: demo_external_def)
  have a: "calculate_fps demo_external (203 / 2) 102 ?d =
     (30, demo_detector\<lparr>fps := 30, frame_count := 0, start_time := 102\<rparr>)"
    using calculate_fps_window [of demo_external "203 / 2" ?d 102 "[]"]
    by (simp add: s x demo_detector_def)
  have b: "calculate_fps demo_external (201 / 2) 101 ?d =
     (29, demo_detector\<lparr>frame_count := 45, fps := 29\<rparr>)"
    using calculate_fps_window [of demo_external "201 / 2" ?d 101 "[]"]
    by (simp add: s x demo_detector_def)
  have r: "fsub rounding_external double_1_1 double_0_1 = 1"
    by (simp add: rounding_external_def)
  have c: "calculate_fps rounding_external double_1_1 2 ?e =
     (29, demo_detector\<lparr>frame_count := 45, fps := 29, start_time := double_0_1\<rparr>)"
    using calculate_fps_window [of rounding_external double_1_1 ?e 2 "[]"]
    by (simp add: r demo_detector_def)
  have g: "1 < double_1_1 - double_0_1"
    by (simp add: double_1_1_def double_0_1_def)
  have "\<forall>t \<in> set ?ts. fsub demo_external (fst t) (start_time ?d) \<le> 1" by (simp add: s x)
  then have "\<forall>f \<in> set (fst (calculate_fps_calls demo_external ?ts ?d)). f = fps ?d"
    using calculate_fps_window [of demo_external 0 ?d 0 ?ts] by blast
  then have d: "set (fst (calculate_fps_calls demo_external ?ts ?d)) \<subseteq> {29}" by (auto simp: s)
  show ?thesis using a b c g d by simp
qed

subsection \<open>The store and the trace\<close>

lemma trace_emit [simp]: "trace (emit e w) = trace w @ [e]"
  by (simp add: emit_def)

lemma trace_print [simp]: "trace (print s w) = trace w @ [Print s]"
  by (simp add: print_def)

lemma trace_draw [simp]: "trace (draw a op w) = trace w"
  by (simp add: draw_def)

lemma heap_emit [simp]: "heap (emit e w) = heap w"
  by (simp add: emit_def)

lemma heap_print [simp]: "heap (print s w) = heap w"
  by (simp add: print_def)

lemma heap_draw [simp]:
  "heap (draw a op w) = (heap w)(a := (heap w a)\<lparr>drawn := drawn (heap w a) @ [op]\<rparr>)"
  by (simp add: draw_def)

lemma next_free_emit [simp]: "next_free (emit e w) = next_free w"
  by (simp add: emit_def)

lemma next_free_print [simp]: "next_free (print s w) = next_free w"
  by (simp add: print_def)

lemma next_free_draw [simp]: "next_free (draw a op w) = next_free w"
  by (simp add: draw_def)

lemma frames_Nil [simp]: "frames k [] = []"
  by (simp add: frames_def)

lemma frames_append [simp]: "frames k (xs @ ys) = frames k xs @ frames k ys"
  by (simp add: frames_def)

lemma frames_Cons [simp]: "frames k (e # es) = sink_frame k e @ frames k es"
  by (simp add: frames_def)

lemma sink_frame_Print [simp]: "sink_frame k (Print s) = []"
  by (cases k) simp_all

lemma sink_frame_others [simp]:
  "sink_frame k (Sleep n) = []" "sink_frame k (WriterOpen f c r z) = []"
  "sink_frame k (MakeDirs p) = []"
  by (cases k; simp)+

lemma draw_annotations_trace [simp]: "trace (draw_annotations X cfg a dets w) = trace w"
  by (induction dets arbitrary: w) (simp_all add: split_def Let_def)

lemma draw_annotations_next_free [simp]:
  "next_free (draw_annotations X cfg a dets w) = next_free w"
  by (induction dets arbitrary: w) (simp_all add: split_def Let_def)

lemma draw_annotations_other:
  "b \<noteq> a \<Longrightarrow> heap (draw_annotations X cfg a dets w) b = heap w b"
  by (induction dets arbitrary: w) (simp_all add: split_def Let_def)

lemma draw_annotations_frame:
  "heap (draw_annotations X cfg a dets w) a =
     (heap w a)\<lparr>drawn := drawn (heap w a) @ concat (map (annotation_ops X cfg) dets)\<rparr>"
  by (induction dets arbitrary: w) (simp_all add: split_def Let_def annotation_ops_def)

lemma detection_lines_world:
  "heap (detection_lines X n dets w) = heap w
   \<and> next_free (detection_lines X n dets w) = next_free w
   \<and> frames k (trace (detection_lines X n dets w)) = frames k (trace w)"
  by (induction dets arbitrary: n w) simp_all

lemma handle_key_flow:
  "fst (handle_key X i a dets s w) =
     (if waitKey i AND 0xFF = ord (CHR ''q'') \<or> waitKey i AND 0xFF = 27 then Break else Next)"
  by (simp add: handle_key_def Let_def split_def)

lemma handle_key_frames:
  "frames Written (trace (snd (snd (handle_key X i a dets s w)))) = frames Written (trace w)
   \<and> frames Shown (trace (snd (snd (handle_key X i a dets s w)))) = frames Shown (trace w)"
  by (simp add: handle_key_def Let_def split_def save_frame_def toggle_recording_def
        show_detection_info_def detection_lines_world split: option.splits)

lemma handle_key_saved:
  "frames Saved (trace (snd (snd (handle_key X i a dets s w)))) =
     frames Saved (trace w)
     @ (if waitKey i AND 0xFF = ord (CHR ''s'') then [heap w a] else [])"
  by (simp add: handle_key_def Let_def split_def save_frame_def toggle_recording_def
        show_detection_info_def detection_lines_world ord_def split: option.splits)

subsection \<open>main.py: the loop\<close>

lemma calculate_fps_config [simp]:
  "det_config (snd (calculate_fps X t1 t2 d)) = det_config d"
  by (simp add: calculate_fps_def Let_def)

lemma process_frame_unfold:
  assumes "detect_objects X (inference i) (detector s) frame w = (Returns (af, dets), w1)"
  shows "process_frame X i frame s w =
     (let s1 = s\<lparr>detector := snd (calculate_fps X (clock1 i) (clock2 i) (detector s))\<rparr>;
          w3 = draw af (count_overlay dets) (draw af (fps_overlay X i (detector s)) w1)
      in case video_writer s of
           None \<Rightarrow> handle_key X i af dets s1 (emit (ImShow (WINDOW_NAME Config) (heap w3 af)) w3)
         | Some vw \<Rightarrow>
             (case writer_write i of
                Raises e \<Rightarrow> (Raise e, s1, w3)
              | Returns u \<Rightarrow>
                  (let w4 = emit (WriterWrite (heap w3 af)) w3;
                       w5 = draw af (indicator (heap w4 af)) w4
                   in handle_key X i af dets s1
                        (emit (ImShow (WINDOW_NAME Config) (heap w5 af)) w5))))"
proof -
  have fps: "SHOW_FPS Config" by (simp add: Config_def)
  show ?thesis
    unfolding process_frame_def assms
    by (simp add: fps draw_fps_def split_def Let_def fps_overlay_def count_overlay_def
          indicator_def split: option.split outcome.split)
qed

lemmas demo_defs = demo_input_def demo_system_def demo_camera_def demo_detector_def
  demo_capture_def demo_external_def demo_now_def demo_writer_def recording_system_def
  write_fault_input_def world0_def inner_box_def blank_def

lemma str_nat_digit: "n < 10 \<Longrightarrow> str_nat n = [digit_char n]"
  by (simp add: str_nat.simps [of n])


lemma read_frame_sleeps:
  "read_frame rd c w = (r, w1) \<Longrightarrow> count_list (trace w1) (Sleep n) = count_list (trace w) (Sleep n)"
  by (auto simp: read_frame_def alloc_def
           split: if_splits outcome.splits exn.splits option.splits prod.splits)

lemma initialize_camera_sleeps:
  "initialize_camera vc c w = (r, c', w') \<Longrightarrow>
     count_list (trace w') (Sleep n) = count_list (trace w) (Sleep n)"
  by (auto simp: initialize_camera_def Let_def split: if_splits outcome.splits exn.splits)

lemma release_sleeps:
  "count_list (trace (snd (release c w))) (Sleep n) = count_list (trace w) (Sleep n)"
  by (cases "cap c") (simp_all add: release_def)

lemma reconnect_sleeps:
  assumes "reconnect vc c w = (r, c', w')"
  shows "count_list (trace w') (Sleep 1) = Suc (count_list (trace w) (Sleep 1))"
proof -
  obtain c1 w2 where rel: "release c (print ''Attempting to reconnect camera...'' w) = (c1, w2)"
    by (cases "release c (print ''Attempting to reconnect camera...'' w)")
  have w2: "count_list (trace w2) (Sleep 1) = count_list (trace w) (Sleep 1)"
    using release_sleeps [of c "print ''Attempting to reconnect camera...'' w" 1] rel by simp
  have "initialize_camera vc c1 (emit (Sleep 1) w2) = (r, c', w')"
    using assms rel by (simp add: reconnect_def Let_def)
  then have "count_list (trace w') (Sleep 1) = count_list (trace (emit (Sleep 1) w2)) (Sleep 1)"
    by (rule initialize_camera_sleeps)
  then show ?thesis using w2 by simp
qed

lemma reconnect_available:
  "reconnect vc c w = (Returns True, c', w') \<Longrightarrow> is_available c'"
  by (auto simp: reconnect_def initialize_camera_def release_def Let_def is_available_def
           split: if_splits outcome.splits exn.splits option.splits prod.splits)

lemma tick_failed_read:
  "read_frame (cap_read i) (camera s) w = (Returns (ret, frame), w1) \<Longrightarrow> \<not> ret \<or> frame = None \<Longrightarrow>
     tick X i s w = failed_read i s w1"
  by (cases frame) (auto simp: tick_def)

text \<open>
  C7. When \<open>read_frame\<close> reports a failure, the iteration makes one call of \<open>reconnect\<close>
  (one \<open>sleep(1)\<close> is added to the trace, and \<open>sleep\<close> is called nowhere else). If it
  returns \<open>True\<close> the camera is available again and the loop goes on with the next
  iteration, the rest of this one being skipped; if it returns \<open>False\<close> the loop ends
  with \<open>break\<close>, whatever iterations would follow.
\<close>

theorem failed_read_single_reconnect:
  assumes running: "is_running s"
    and rd: "read_frame (cap_read i) (camera s) w = (Returns (ret, frame), w1)"
    and failed: "\<not> ret \<or> frame = None"
    and rc: "reconnect (video_capture i) (camera s)
               (print ''Failed to read frame. Attempting reconnection...'' w1) = (Returns ok, c, w2)"
  shows "count_list (trace w2) (Sleep 1) = Suc (count_list (trace w) (Sleep 1))
     \<and> (ok \<longrightarrow> is_available c \<and> loop X (i # rest) s w = loop X rest (s\<lparr>camera := c\<rparr>) w2)
     \<and> (\<not> ok \<longrightarrow> loop X (i # rest) s w =
           Some (Break, s\<lparr>camera := c\<rparr>, print ''Could not reconnect to camera. Exiting...'' w2))"
proof -
  have t: "tick X i s w = failed_read i s w1"
    using rd failed by (rule tick_failed_read)
  have n: "count_list (trace w2) (Sleep 1) = Suc (count_list (trace w) (Sleep 1))"
    using reconnect_sleeps [OF rc] read_frame_sleeps [OF rd, of 1] by simp
  have a: "ok \<Longrightarrow> is_available c" using rc reconnect_available [of _ _ _ c w2] by simp
  have l1: "ok \<Longrightarrow> loop X (i # rest) s w = loop X rest (s\<lparr>camera := c\<rparr>) w2"
    using running t rc by (simp add: failed_read_def Let_def)
  have l2: "\<not> ok \<Longrightarrow> loop X (i # rest) s w =
           Some (Break, s\<lparr>camera := c\<rparr>, print ''Could not reconnect to camera. Exiting...'' w2)"
    using running t rc by (simp add: failed_read_def Let_def)
  show ?thesis using n a l1 l2 by blast
qed

theorem failed_read_single_reconnect_witness:
  "map_option fst (loop demo_external [read_fault_lost, demo_input] demo_system world0) = Some Break
   \<and> loop demo_external [read_fault_back, demo_input\<lparr>waitKey := 113\<rparr>] demo_system world0 =
       loop demo_external [demo_input\<lparr>waitKey := 113\<rparr>] demo_system
         (snd (snd (reconnect (Returns demo_capture) demo_camera
                     (print ''Failed to read frame. Attempting reconnection...''
                        (print ''Failed to read frame from camera'' world0)))))"
proof -
  let ?w1 = "print ''Failed to read frame from camera'' world0"
  let ?w1' = "print ''Failed to read frame. Attempting reconnection...'' ?w1"
  have running: "is_running demo_system" by (simp add: demo_system_def)
  have rd1: "read_frame (cap_read read_fault_lost) (camera demo_system) world0 =
               (Returns (False, None), ?w1)"
    by (simp add: read_frame_def read_fault_lost_def demo_defs)
  have rd2: "read_frame (cap_read read_fault_back) (camera demo_system) world0 =
               (Returns (False, None), ?w1)"
    by (simp add: read_frame_def read_fault_back_def demo_defs)
  obtain c w2 where rc1: "reconnect (video_capture read_fault_lost) (camera demo_system) ?w1' =
                     (Returns False, c, w2)"
    by (simp add: reconnect_def release_def initialize_camera_def read_fault_lost_def demo_defs
          Let_def)
  have rc2: "reconnect (video_capture read_fault_back) (camera demo_system) ?w1' =
               (Returns True, demo_camera,
                snd (snd (reconnect (Returns demo_capture) demo_camera ?w1')))"
    by (simp add: reconnect_def release_def initialize_camera_def read_fault_back_def demo_defs
          Let_def)
  have "loop demo_external [read_fault_lost, demo_input] demo_system world0 =
          Some (Break, demo_system\<lparr>camera := c\<rparr>,
                print ''Could not reconnect to camera. Exiting...'' w2)"
    using failed_read_single_reconnect [OF running rd1 _ rc1, of demo_external "[demo_input]"]
    by simp
  moreover have "loop demo_external [read_fault_back, demo_input\<lparr>waitKey := 113\<rparr>] demo_system world0 =
      loop demo_external [demo_input\<lparr>waitKey := 113\<rparr>] (demo_system\<lparr>camera := demo_camera\<rparr>)
        (snd (snd (reconnect (Returns demo_capture) demo_camera ?w1')))"
    using failed_read_single_reconnect [OF running rd2 _ rc2, of demo_external
            "[demo_input\<lparr>waitKey := 113\<rparr>]"]
    by simp
  ultimately show ?thesis by (simp add: demo_system_def)
qed

lemma str_nat_0 [simp]: "str_nat 0 = ''0''"
  by (simp add: str_nat.simps [of 0] digit_char_def)

text \<open>
  C9. When the model call raises an \<open>Exception\<close>, \<open>detect_objects\<close> prints
  \<open>Detection error: ...\<close> and returns the address of the input frame, on which nothing
  has been drawn, with an empty detection list. The iteration then goes on as with zero
  detections: it shows the frame with the FPS text and \<open>Objects: 0\<close> (and the indicator
  while recording), and it ends the loop only on the quit keys.
\<close>

theorem detect_objects_backend_exception:
  assumes m: "model (detector s) = Some m"
    and ex: "inference i = Raises (Exception e)"
    and wr: "video_writer s = None \<or> writer_write i = Returns ()"
  shows "detect_objects X (inference i) (detector s) frame w =
           (Returns (frame, []), print (''Detection error: '' @ e) w)
     \<and> fst (process_frame X i frame s w) =
           (if waitKey i AND 0xFF = ord (CHR ''q'') \<or> waitKey i AND 0xFF = 27 then Break else Next)
     \<and> frames Shown (trace (snd (snd (process_frame X i frame s w)))) =
           frames Shown (trace w)
           @ [(heap w frame)\<lparr>drawn := drawn (heap w frame)
                @ [fps_overlay X i (detector s),
                   PutText ''Objects: 0'' (10, 60) (FONT Config) (FONT_SCALE Config)
                     (FPS_COLOR Config) (FONT_THICKNESS Config)]
                @ (if video_writer s = None then [] else [indicator (heap w frame)])\<rparr>]"
proof -
  have det: "detect_objects X (inference i) (detector s) frame w =
           (Returns (frame, []), print (''Detection error: '' @ e) w)"
    using m ex by (simp add: detect_objects_def)
  note pf = process_frame_unfold [OF det]
  show ?thesis
  proof (cases "video_writer s")
    case None
    then show ?thesis
      using det pf
      by (simp add: Let_def handle_key_flow handle_key_frames count_overlay_def)
  next
    case (Some vw)
    with wr have "writer_write i = Returns ()" by simp
    then show ?thesis
      using det pf Some
      by (simp add: Let_def handle_key_flow handle_key_frames count_overlay_def indicator_def)
  qed
qed

theorem detect_objects_backend_exception_witness:
  "detect_objects demo_external (Raises (Exception ''CUDA error'')) demo_detector 0 world0 =
     (Returns (0, []), print ''Detection error: CUDA error'' world0)
   \<and> fst (process_frame demo_external (demo_input\<lparr>inference := Raises (Exception ''CUDA error'')\<rparr>)
            0 demo_system world0) = Next
   \<and> map drawn (frames Shown (trace (snd (snd (process_frame demo_external
            (demo_input\<lparr>inference := Raises (Exception ''CUDA error'')\<rparr>) 0 demo_system world0))))) =
       [[PutText ''FPS: 30.0'' (10, 30) 0 (6 / 10) (0, 255, 255) 2,
         PutText ''Objects: 0'' (10, 60) 0 (6 / 10) (0, 255, 255) 2]]"
  using detect_objects_backend_exception [of demo_system "\<lparr>names = [(0, ''person'')]\<rparr>"
          "demo_input\<lparr>inference := Raises (Exception ''CUDA error'')\<rparr>" "''CUDA error''"
          demo_external 0 world0]
  by (simp add: demo_defs fps_overlay_def calculate_fps_def Config_def ord_def Let_def)

lemma boxes_loop_no_interrupt: "boxes_loop cn bs acc \<noteq> Raises KeyboardInterrupt"
  by (induction bs arbitrary: acc) (simp_all add: split_def Let_def split: option.split)

lemma results_loop_no_interrupt: "results_loop cn rs acc \<noteq> Raises KeyboardInterrupt"
  using boxes_loop_no_interrupt
  by (induction rs arbitrary: acc) (auto split: outcome.split)

lemma detect_objects_cases:
  assumes "res \<noteq> Raises KeyboardInterrupt"
  shows "\<exists>af dets w1. detect_objects X res d frame w = (Returns (af, dets), w1)
           \<and> (\<exists>pre. trace w1 = trace w @ pre \<and> frames Written pre = [] \<and> frames Shown pre = [])"
proof (cases "model d")
  case None
  then show ?thesis by (simp add: detect_objects_def)
next
  case (Some m)
  show ?thesis
  proof (cases res)
    case (Raises x)
    with assms obtain e where "x = Exception e" by (cases x) auto
    with Raises Some show ?thesis by (simp add: detect_objects_def)
  next
    case (Returns results)
    show ?thesis
    proof (cases "results_loop (class_names d) results []")
      case (Raises x)
      with results_loop_no_interrupt [of "class_names d" results "[]"]
      obtain e where "x = Exception e" by (cases x) auto
      with Raises Returns Some show ?thesis by (simp add: detect_objects_def)
    next
      case r: (Returns dets)
      with Returns Some show ?thesis
        by (simp add: detect_objects_def copy_def alloc_def Let_def)
    qed
  qed
qed

lemma detect_objects_success:
  assumes "model d = Some m" and "res = Returns results"
    and "results_loop (class_names d) results [] = Returns ds"
    and "detect_objects X res d frame w = (Returns (af, dets), w1)"
  shows "af = next_free w \<and> dets = ds \<and> trace w1 = trace w
     \<and> heap w1 af = (heap w frame)\<lparr>drawn := drawn (heap w frame)
                        @ concat (map (annotation_ops X (det_config d)) ds)\<rparr>"
  using assms
  by (auto simp: detect_objects_def copy_def alloc_def Let_def draw_annotations_frame)

lemma process_frame_frames:
  assumes det: "detect_objects X (inference i) (detector s) frame w = (Returns (af, dets), w1)"
    and wr: "video_writer s = None \<or> writer_write i = Returns ()"
  shows "frames Written (trace (snd (snd (process_frame X i frame s w)))) =
           frames Written (trace w1)
           @ (if video_writer s = None then []
              else [(heap w1 af)\<lparr>drawn := drawn (heap w1 af)
                      @ [fps_overlay X i (detector s), count_overlay dets]\<rparr>])"
    and "frames Shown (trace (snd (snd (process_frame X i frame s w)))) =
           frames Shown (trace w1)
           @ [(heap w1 af)\<lparr>drawn := drawn (heap w1 af)
                @ [fps_overlay X i (detector s), count_overlay dets]
                @ (if video_writer s = None then [] else [indicator (heap w1 af)])\<rparr>]"
    and "frames Saved (trace (snd (snd (process_frame X i frame s w)))) =
           frames Saved (trace w1)
           @ (if waitKey i AND 0xFF = ord (CHR ''s'')
              then [(heap w1 af)\<lparr>drawn := drawn (heap w1 af)
                      @ [fps_overlay X i (detector s), count_overlay dets]
                      @ (if video_writer s = None then [] else [indicator (heap w1 af)])\<rparr>]
              else [])"
proof -
  note pf = process_frame_unfold [OF det]
  have "video_writer s = None \<or> (\<exists>vw. video_writer s = Some vw \<and> writer_write i = Returns ())"
    using wr by (cases "video_writer s") auto
  then show
    "frames Written (trace (snd (snd (process_frame X i frame s w)))) =
           frames Written (trace w1)
           @ (if video_writer s = None then []
              else [(heap w1 af)\<lparr>drawn := drawn (heap w1 af)
                      @ [fps_overlay X i (detector s), count_overlay dets]\<rparr>])"
    "frames Shown (trace (snd (snd (process_frame X i frame s w)))) =
           frames Shown (trace w1)
           @ [(heap w1 af)\<lparr>drawn := drawn (heap w1 af)
                @ [fps_overlay X i (detector s), count_overlay dets]
                @ (if video_writer s = None then [] else [indicator (heap w1 af)])\<rparr>]"
    "frames Saved (trace (snd (snd (process_frame X i frame s w)))) =
           frames Saved (trace w1)
           @ (if waitKey i AND 0xFF = ord (CHR ''s'')
              then [(heap w1 af)\<lparr>drawn := drawn (heap w1 af)
                      @ [fps_overlay X i (detector s), count_overlay dets]
                      @ (if video_writer s = None then [] else [indicator (heap w1 af)])\<rparr>]
              else [])"
    using pf
    by (auto simp: Let_def handle_key_frames handle_key_saved indicator_def)
qed

text \<open>
  C5, as the code has it. In every iteration the overlays are drawn before the frame is
  used: what \<open>detect_objects\<close> drew (a box, a label background and a label for each
  detection, on a copy of the camera frame), then the FPS text, then the object count.
  While recording, the frame handed to the video writer carries exactly these and no
  recording indicator: the indicator is drawn after \<open>write\<close>. The frame shown, and the
  snapshot that the save key writes in the same iteration, carry the indicator as well
  while recording.
\<close>

theorem recorded_frame_overlays:
  assumes det: "detect_objects X (inference i) (detector s) frame w = (Returns (af, dets), w1)"
    and wr: "video_writer s = None \<or> writer_write i = Returns ()"
  shows "frames Written (trace (snd (snd (process_frame X i frame s w)))) =
           frames Written (trace w1)
           @ (if video_writer s = None then []
              else [(heap w1 af)\<lparr>drawn := drawn (heap w1 af)
                      @ [fps_overlay X i (detector s), count_overlay dets]\<rparr>])
     \<and> frames Shown (trace (snd (snd (process_frame X i frame s w)))) =
           frames Shown (trace w1)
           @ [(heap w1 af)\<lparr>drawn := drawn (heap w1 af)
                @ [fps_overlay X i (detector s), count_overlay dets]
                @ (if video_writer s = None then [] else [indicator (heap w1 af)])\<rparr>]
     \<and> frames Saved (trace (snd (snd (process_frame X i frame s w)))) =
           frames Saved (trace w1)
           @ (if waitKey i AND 0xFF = ord (CHR ''s'')
              then [(heap w1 af)\<lparr>drawn := drawn (heap w1 af)
                      @ [fps_overlay X i (detector s), count_overlay dets]
                      @ (if video_writer s = None then [] else [indicator (heap w1 af)])\<rparr>]
              else [])
     \<and> (model (detector s) = Some m \<and> inference i = Returns results
          \<and> results_loop (class_names (detector s)) results [] = Returns ds \<longrightarrow>
         dets = ds
         \<and> heap w1 af = (heap w frame)\<lparr>drawn := drawn (heap w frame)
               @ concat (map (annotation_ops X (det_config (detector s))) ds)\<rparr>)"
proof -
  have "dets = ds \<and> heap w1 af = (heap w frame)\<lparr>drawn := drawn (heap w frame)
               @ concat (map (annotation_ops X (det_config (detector s))) ds)\<rparr>"
    if "model (detector s) = Some m" "inference i = Returns results"
      "results_loop (class_names (detector s)) results [] = Returns ds"
    using detect_objects_success [OF that det] by blast
  then show ?thesis
    using process_frame_frames [OF det wr] by blast
qed

lemma demo_tick_trace:
  "map drawn (frames Written (trace (snd (snd (tick demo_external demo_input recording_system world0))))) =
    [[Rectangle (200, 150) (300, 400) (0, 255, 0) 2,
      Rectangle (200, 126) (320, 150) (0, 255, 0) (- 1),
      PutText ''person: 0.73'' (200, 140) 0 (6 / 10) (255, 255, 255) 2,
      PutText ''FPS: 30.0'' (10, 30) 0 (6 / 10) (0, 255, 255) 2,
      PutText ''Objects: 1'' (10, 60) 0 (6 / 10) (0, 255, 255) 2]]"
  "map drawn (frames Shown (trace (snd (snd (tick demo_external demo_input recording_system world0))))) =
    [[Rectangle (200, 150) (300, 400) (0, 255, 0) 2,
      Rectangle (200, 126) (320, 150) (0, 255, 0) (- 1),
      PutText ''person: 0.73'' (200, 140) 0 (6 / 10) (255, 255, 255) 2,
      PutText ''FPS: 30.0'' (10, 30) 0 (6 / 10) (0, 255, 255) 2,
      PutText ''Objects: 1'' (10, 60) 0 (6 / 10) (0, 255, 255) 2,
      Circle (610, 30) 10 (0, 0, 255) (- 1)]]"
  by (simp_all add: tick_def read_frame_def demo_defs alloc_def detect_objects_def py_int_def
      copy_def process_frame_def draw_fps_def calculate_fps_def Config_def Let_def handle_key_def
      ord_def draw_def str_nat_digit digit_char_def)

text \<open>
  C5, as the claim states it, fails: in an iteration while recording, with one person
  detected and nothing failing, one frame reaches the video writer and no recording
  indicator has been drawn on it, while the frame shown has one.
\<close>

theorem recorded_frame_indicator_counterexample:
  "video_writer recording_system = Some demo_writer
   \<and> length (frames Written
        (trace (snd (snd (tick demo_external demo_input recording_system world0))))) = 1
   \<and> filter is_indicator (concat (map drawn (frames Written
        (trace (snd (snd (tick demo_external demo_input recording_system world0))))))) = []
   \<and> filter is_indicator (concat (map drawn (frames Shown
        (trace (snd (snd (tick demo_external demo_input recording_system world0))))))) =
       [Circle (610, 30) 10 (0, 0, 255) (- 1)]"
proof -
  let ?written = "frames Written
        (trace (snd (snd (tick demo_external demo_input recording_system world0))))"
  have "length (map drawn ?written) = 1"
    by (simp only: demo_tick_trace) simp
  then have n: "length ?written = 1" by (simp only: length_map)
  have rec: "video_writer recording_system = Some demo_writer"
    by (simp add: recording_system_def)
  show ?thesis
    using n rec by (simp add: demo_tick_trace)
qed

theorem recorded_frame_overlays_witness:
  "map drawn (frames Written (trace (snd (snd (process_frame demo_external
       (demo_input\<lparr>waitKey := 115\<rparr>) 0 recording_system world1))))) =
     [[Rectangle (200, 150) (300, 400) (0, 255, 0) 2,
       Rectangle (200, 126) (320, 150) (0, 255, 0) (- 1),
       PutText ''person: 0.73'' (200, 140) 0 (6 / 10) (255, 255, 255) 2,
       PutText ''FPS: 30.0'' (10, 30) 0 (6 / 10) (0, 255, 255) 2,
       PutText ''Objects: 1'' (10, 60) 0 (6 / 10) (0, 255, 255) 2]]
   \<and> map drawn (frames Saved (trace (snd (snd (process_frame demo_external
       (demo_input\<lparr>waitKey := 115\<rparr>) 0 recording_system world1))))) =
     [[Rectangle (200, 150) (300, 400) (0, 255, 0) 2,
       Rectangle (200, 126) (320, 150) (0, 255, 0) (- 1),
       PutText ''person: 0.73'' (200, 140) 0 (6 / 10) (255, 255, 255) 2,
       PutText ''FPS: 30.0'' (10, 30) 0 (6 / 10) (0, 255, 255) 2,
       PutText ''Objects: 1'' (10, 60) 0 (6 / 10) (0, 255, 255) 2,
       Circle (610, 30) 10 (0, 0, 255) (- 1)]]"
proof -
  let ?i = "demo_input\<lparr>waitKey := 115\<rparr>"
  let ?r = "detect_objects demo_external (inference ?i) (detector recording_system) 0 world1"
  have det: "?r = (Returns (1, [inner_detection]), snd ?r)"
    by (simp add: prod_eq_iff detect_objects_def demo_defs world1_def inner_detection_def
          py_int_def copy_def alloc_def Let_def)
  have wr: "video_writer recording_system = None \<or> writer_write ?i = Returns ()"
    by (simp add: demo_defs)
  have w1: "heap (snd ?r) 1 = camera_frame\<lparr>drawn :=
      [Rectangle (200, 150) (300, 400) (0, 255, 0) 2,
       Rectangle (200, 126) (320, 150) (0, 255, 0) (- 1),
       PutText ''person: 0.73'' (200, 140) 0 (6 / 10) (255, 255, 255) 2]\<rparr>"
      "trace (snd ?r) = []"
    by (simp_all add: detect_objects_def demo_defs world1_def inner_detection_def camera_frame_def
          py_int_def copy_def alloc_def Let_def draw_def Config_def)
  have ov: "fps_overlay demo_external ?i (detector recording_system) =
              PutText ''FPS: 30.0'' (10, 30) 0 (6 / 10) (0, 255, 255) 2"
      "count_overlay [inner_detection] = PutText ''Objects: 1'' (10, 60) 0 (6 / 10) (0, 255, 255) 2"
    by (simp_all add: fps_overlay_def count_overlay_def demo_defs Config_def
          calculate_fps_def Let_def str_nat_digit digit_char_def)
  have ind: "indicator (heap (snd ?r) 1) = Circle (610, 30) 10 (0, 0, 255) (- 1)"
    using w1 by (simp add: indicator_def camera_frame_def)
  have rec: "video_writer recording_system \<noteq> None" "waitKey ?i AND 0xFF = ord (CHR ''s'')"
    by (simp_all add: demo_defs ord_def)
  show ?thesis
    using recorded_frame_overlays [OF det wr] w1 ov ind rec
    by (simp add: camera_frame_def)
qed

lemma read_frame_ok:
  assumes "is_available c" and "rd = Returns (True, Some (h, wd, p))"
  shows "read_frame rd c w =
           (Returns (True, Some (next_free w)),
            snd (alloc \<lparr>rows = h, cols = wd, raw = p, drawn = []\<rparr> w))"
  using assms by (auto simp: read_frame_def is_available_def alloc_def)

lemma trace_alloc [simp]: "trace (snd (alloc img w)) = trace w"
  by (simp add: alloc_def)

lemma cleanup_trace_recording:
  assumes "video_writer s = Some vw" and "cap (camera s) = Some k"
  shows "trace (snd (cleanup s w)) =
           trace w @ [Print (nl @ ''Cleaning up...''), WriterRelease, CapRelease,
                      Print ''Camera released'', DestroyAllWindows,
                      Print ''System shutdown complete'', Print (replicate 60 (CHR ''=''))]"
    and "video_writer (fst (cleanup s w)) = Some vw"
  using assms by (simp_all add: cleanup_def release_def Let_def split_def)

lemma write_fault_tick:
  assumes avail: "is_available (camera s)"
    and rec: "video_writer s = Some vw"
    and rd: "cap_read i = Returns (True, Some pic)"
    and inf: "inference i \<noteq> Raises KeyboardInterrupt"
    and wr: "writer_write i = Raises x"
  shows "\<exists>s1 w1 pre. tick X i s w = (Raise x, s1, w1)
           \<and> video_writer s1 = Some vw \<and> camera s1 = camera s
           \<and> trace w1 = trace w @ pre \<and> frames Written pre = [] \<and> frames Shown pre = []"
proof -
  obtain h wd p where pic: "pic = (h, wd, p)" by (cases pic)
  let ?a = "next_free w"
  let ?wr = "snd (alloc \<lparr>rows = h, cols = wd, raw = p, drawn = []\<rparr> w)"
  have read: "read_frame (cap_read i) (camera s) w = (Returns (True, Some ?a), ?wr)"
    using read_frame_ok [of "camera s" "cap_read i" h wd p w] avail rd pic by simp
  obtain af dets w1 pre1 where det:
      "detect_objects X (inference i) (detector s) ?a ?wr = (Returns (af, dets), w1)"
    and tr1: "trace w1 = trace ?wr @ pre1" "frames Written pre1 = []" "frames Shown pre1 = []"
    using detect_objects_cases [OF inf, of X "detector s" ?a ?wr] by blast
  let ?s1 = "s\<lparr>detector := snd (calculate_fps X (clock1 i) (clock2 i) (detector s))\<rparr>"
  let ?w3 = "draw af (count_overlay dets) (draw af (fps_overlay X i (detector s)) w1)"
  have pf: "process_frame X i ?a s ?wr = (Raise x, ?s1, ?w3)"
    using process_frame_unfold [OF det] rec wr by (simp add: Let_def)
  have tk: "tick X i s w = (Raise x, ?s1, ?w3)"
    using read pf by (simp add: tick_def)
  have "video_writer ?s1 = Some vw" "camera ?s1 = camera s" "trace ?w3 = trace w @ pre1"
    using rec tr1 by simp_all
  with tk tr1 show ?thesis by blast
qed

lemma write_fault_loop:
  assumes "is_running s" and "is_available (camera s)" and "video_writer s = Some vw"
    and "cap_read i = Returns (True, Some pic)" and "inference i \<noteq> Raises KeyboardInterrupt"
    and "writer_write i = Raises x"
  shows "map_option fst (loop X (i # rest) s w) = Some (Raise x)"
proof -
  obtain s1 w1 where "tick X i s w = (Raise x, s1, w1)"
    using write_fault_tick [OF assms(2-6), of X w] by blast
  then show ?thesis using assms(1) by simp
qed

text \<open>
  C1, as the code has it. There is no handler around \<open>video_writer.write\<close>. An
  \<open>Exception\<close> raised by it leaves the loop at once, whatever iterations would follow;
  the handler of \<open>run\<close> prints \<open>Error during detection: ...\<close>, and \<open>cleanup\<close> releases
  the writer and the camera and closes the windows. \<open>run\<close> returns: the session
  has ended. The frame of that iteration is neither written nor shown, and
  \<open>video_writer\<close> is not reset.
\<close>

theorem write_fault_ends_run:
  assumes avail: "is_available (camera s)"
    and rec: "video_writer s = Some vw"
    and rd: "cap_read i = Returns (True, Some pic)"
    and inf: "inference i \<noteq> Raises KeyboardInterrupt"
    and wr: "writer_write i = Raises (Exception e)"
  shows "\<exists>s' w' pre.
           run X (i # rest) s w = Some (s', w')
         \<and> video_writer s' = Some vw
         \<and> frames Written pre = [] \<and> frames Shown pre = []
         \<and> trace w' = trace w @ pre
              @ [Print (nl @ ''Error during detection: '' @ e),
                 Print (nl @ ''Cleaning up...''), WriterRelease, CapRelease,
                 Print ''Camera released'', DestroyAllWindows,
                 Print ''System shutdown complete'', Print (replicate 60 (CHR ''=''))]"
proof -
  let ?s0 = "s\<lparr>is_running := True\<rparr>"
  let ?start = "''Starting detection... (Press '' @ [CHR 0x27] @ ''q'' @ [CHR 0x27]
                         @ '' to quit)'' @ nl"
  let ?w0 = "print ?start w"
  have avail0: "is_available (camera ?s0)" and rec0: "video_writer ?s0 = Some vw"
    using avail rec by simp_all
  obtain s1 w1 pre1 where tk: "tick X i ?s0 ?w0 = (Raise (Exception e), s1, w1)"
    and s1: "video_writer s1 = Some vw" "camera s1 = camera ?s0"
    and tr1: "trace w1 = trace ?w0 @ pre1" "frames Written pre1 = []" "frames Shown pre1 = []"
    using write_fault_tick [OF avail0 rec0 rd inf wr, of X ?w0] by blast
  have lp: "loop X (i # rest) ?s0 ?w0 = Some (Raise (Exception e), s1, w1)"
    using tk by simp
  let ?w4 = "print (nl @ ''Error during detection: '' @ e) w1"
  have rn: "run X (i # rest) s w = Some (cleanup s1 ?w4)"
    using avail lp by (simp add: run_def Let_def)
  obtain k where k: "cap (camera s1) = Some k"
    using avail s1 by (auto simp: is_available_def)
  have tr: "trace ?w4 = trace w @ (Print ?start # pre1) @ [Print (nl @ ''Error during detection: '' @ e)]"
    using tr1 by simp
  have "run X (i # rest) s w = Some (fst (cleanup s1 ?w4), snd (cleanup s1 ?w4))"
    using rn by simp
  moreover have "video_writer (fst (cleanup s1 ?w4)) = Some vw"
    using cleanup_trace_recording(2) [OF s1(1) k] .
  moreover have "frames Written (Print ?start # pre1) = []" "frames Shown (Print ?start # pre1) = []"
    using tr1 by simp_all
  moreover have "trace (snd (cleanup s1 ?w4)) = trace w @ (Print ?start # pre1)
              @ [Print (nl @ ''Error during detection: '' @ e),
                 Print (nl @ ''Cleaning up...''), WriterRelease, CapRelease,
                 Print ''Camera released'', DestroyAllWindows,
                 Print ''System shutdown complete'', Print (replicate 60 (CHR ''=''))]"
    using cleanup_trace_recording(1) [OF s1(1) k, of ?w4] tr by simp
  ultimately show ?thesis by blast
qed

lemma demo_write_fault_facts:
  "is_running recording_system" "is_available (camera recording_system)"
  "video_writer recording_system = Some demo_writer"
  "cap_read write_fault_input = Returns (True, Some (480, 640, 7))"
  "inference write_fault_input \<noteq> Raises KeyboardInterrupt"
  "writer_write write_fault_input = Raises (Exception ''disk full'')"
  by (simp_all add: demo_defs is_available_def)

theorem write_fault_ends_run_witness:
  "\<exists>s' w' pre.
      run demo_external [write_fault_input, demo_input] recording_system world0 = Some (s', w')
    \<and> video_writer s' = Some demo_writer
    \<and> frames Written pre = [] \<and> frames Shown pre = []
    \<and> trace w' = pre
         @ [Print (nl @ ''Error during detection: disk full''),
            Print (nl @ ''Cleaning up...''), WriterRelease, CapRelease,
            Print ''Camera released'', DestroyAllWindows,
            Print ''System shutdown complete'', Print (replicate 60 (CHR ''=''))]"
  using write_fault_ends_run [OF demo_write_fault_facts(2-6), of demo_external "[demo_input]" world0]
  by (simp add: world0_def)

text \<open>
  C1, as the claim states it, fails: with a write fault in the first iteration and a
  second iteration in which nothing would fail, the loop ends in the first with the
  exception, and \<open>run\<close> returns without a frame ever shown.
\<close>

theorem write_fault_counterexample:
  "map_option fst (loop demo_external [write_fault_input, demo_input] recording_system world0) =
     Some (Raise (Exception ''disk full''))"
  using write_fault_loop [OF demo_write_fault_facts, of demo_external "[demo_input]" world0] .

subsection \<open>detector.py: drawing\<close>









lemma world1_frame: "heap world1 0 = camera_frame"
  by (simp add: world1_def)


subsection \<open>main.py: recording\<close>

lemma digit_char_digit: "d < 10 \<Longrightarrow> digit_char d \<in> set ''0123456789''"
proof -
  assume "d < 10"
  then have "d \<in> {0, 1, 2, 3, 4, 5, 6, 7, 8, 9}" by auto
  then show ?thesis by (auto simp: digit_char_def)
qed

lemma str_nat_digits: "set (str_nat n) \<subseteq> set ''0123456789''"
proof (induction n rule: str_nat.induct)
  case (1 n)
  show ?case
  proof (cases "n < 10")
    case True
    then show ?thesis
      using digit_char_digit [of n] by (simp add: str_nat.simps [of n])
  next
    case False
    have "digit_char (n mod 10) \<in> set ''0123456789''"
      by (rule digit_char_digit) simp
    with 1 False show ?thesis
      by (simp add: str_nat.simps [of n])
  qed
qed

lemma str_nat_length: "0 < k \<Longrightarrow> n < 10 ^ k \<Longrightarrow> length (str_nat n) \<le> k"
proof (induction n arbitrary: k rule: str_nat.induct)
  case (1 n)
  show ?case
  proof (cases "n < 10")
    case True
    with 1 show ?thesis by (simp add: str_nat.simps [of n])
  next
    case False
    with 1(3) have "k \<noteq> 1" by auto
    with 1(2) obtain j where j: "k = Suc j" "0 < j" by (cases k) auto
    have "n div 10 < 10 ^ j" using 1(3) j by (simp add: less_mult_imp_div_less)
    with 1(1) [OF False j(2)] have "length (str_nat (n div 10)) \<le> j" by simp
    with False j show ?thesis by (simp add: str_nat.simps [of n])
  qed
qed

lemma zero_pad_length: "0 < k \<Longrightarrow> n < 10 ^ k \<Longrightarrow> length (zero_pad k n) = k"
  using str_nat_length [of k n] by (simp add: zero_pad_def)

lemma zero_pad_digits: "set (zero_pad k n) \<subseteq> set ''0123456789''"
  using str_nat_digits [of n] by (auto simp: zero_pad_def)

lemma strftime_shape:
  assumes "valid_datetime t"
  shows "\<exists>d c. strftime t = d @ ''_'' @ c \<and> length d = 8 \<and> length c = 6
           \<and> set (d @ c) \<subseteq> set ''0123456789''"
proof -
  let ?d = "zero_pad 4 (year t) @ zero_pad 2 (month t) @ zero_pad 2 (day t)"
  let ?c = "zero_pad 2 (hour t) @ zero_pad 2 (minute t) @ zero_pad 2 (second t)"
  have "strftime t = ?d @ ''_'' @ ?c" by (simp add: strftime_def)
  moreover have "length ?d = 8" "length ?c = 6"
    using assms by (simp_all add: valid_datetime_def zero_pad_length)
  moreover have "set (?d @ ?c) \<subseteq> set ''0123456789''"
    using zero_pad_digits [of 4 "year t"] zero_pad_digits [of 2 "month t"]
      zero_pad_digits [of 2 "day t"] zero_pad_digits [of 2 "hour t"]
      zero_pad_digits [of 2 "minute t"] zero_pad_digits [of 2 "second t"]
    by (simp only: set_append Un_subset_iff)
  ultimately show ?thesis by blast
qed

lemma toggle_recording_start:
  assumes "video_writer s = None"
  shows "toggle_recording t frame s w =
           (s\<lparr>video_writer := Some
                \<lparr>vw_filename = ''outputs/recording_'' @ strftime t @ ''.mp4'',
                 vw_fourcc = ''mp4v'', vw_fps = CAMERA_FPS Config,
                 vw_frame_size = (cols (heap w frame), rows (heap w frame))\<rparr>\<rparr>,
            print (''Recording started: outputs/recording_'' @ strftime t @ ''.mp4'')
              (emit (WriterOpen (''outputs/recording_'' @ strftime t @ ''.mp4'') ''mp4v'' 30
                       (cols (heap w frame), rows (heap w frame))) w))"
    and "CAMERA_FPS Config = 30"
  using assms by (simp_all add: toggle_recording_def Config_def Let_def)

text \<open>
  C4, as the code has it. When recording is toggled on, the file is
  \<open>outputs/recording_<stamp>.mp4\<close> with the stamp of \<open>datetime.now()\<close>, eight digits, an
  underscore and six digits; the writer is opened with the size of the annotated frame
  and with \<open>Config.CAMERA_FPS\<close>, which is 30, whatever the camera handler holds and
  so whatever rate the device negotiated.
\<close>

theorem toggle_recording_opens_writer:
  assumes "video_writer s = None" and "valid_datetime t"
  shows "toggle_recording t frame s w =
           (s\<lparr>video_writer := Some
                \<lparr>vw_filename = ''outputs/recording_'' @ strftime t @ ''.mp4'',
                 vw_fourcc = ''mp4v'', vw_fps = CAMERA_FPS Config,
                 vw_frame_size = (cols (heap w frame), rows (heap w frame))\<rparr>\<rparr>,
            print (''Recording started: outputs/recording_'' @ strftime t @ ''.mp4'')
              (emit (WriterOpen (''outputs/recording_'' @ strftime t @ ''.mp4'') ''mp4v'' 30
                       (cols (heap w frame), rows (heap w frame))) w))
     \<and> CAMERA_FPS Config = 30
     \<and> toggle_recording t frame (s\<lparr>camera := c\<rparr>) w =
         (fst (toggle_recording t frame s w)\<lparr>camera := c\<rparr>, snd (toggle_recording t frame s w))
     \<and> (\<exists>d c. strftime t = d @ ''_'' @ c \<and> length d = 8 \<and> length c = 6
           \<and> set (d @ c) \<subseteq> set ''0123456789'')"
proof -
  have "toggle_recording t frame (s\<lparr>camera := c\<rparr>) w =
         (fst (toggle_recording t frame s w)\<lparr>camera := c\<rparr>, snd (toggle_recording t frame s w))"
    using assms(1) by (simp add: toggle_recording_def Let_def)
  then show ?thesis
    using toggle_recording_start [OF assms(1)] strftime_shape [OF assms(2)] by blast
qed

lemma demo_strftime: "strftime demo_now = ''20240102_030405''"
  by (simp add: strftime_def demo_now_def zero_pad_def str_nat.simps [of 2024]
        str_nat.simps [of 202] str_nat.simps [of 20] str_nat_digit digit_char_def)

theorem toggle_recording_opens_writer_witness:
  "video_writer demo_system = None \<and> valid_datetime demo_now
   \<and> map_option vw_filename (video_writer (fst (toggle_recording demo_now 0 demo_system world1))) =
       Some ''outputs/recording_20240102_030405.mp4''
   \<and> map_option vw_fps (video_writer (fst (toggle_recording demo_now 0 demo_system world1))) =
       Some 30
   \<and> map_option vw_frame_size (video_writer (fst (toggle_recording demo_now 0 demo_system world1))) =
       Some (640, 480)"
proof -
  have n: "video_writer demo_system = None" by (simp add: demo_system_def)
  have v: "valid_datetime demo_now" by (simp add: valid_datetime_def demo_now_def)
  show ?thesis
    using toggle_recording_opens_writer [OF n v, of 0 world1] n v
    by (simp add: demo_strftime world1_frame camera_frame_def)
qed

text \<open>
  C4, as the claim states it, fails: a handler whose device negotiated 15 frames per
  second comes out of the constructor, and the writer is opened at 30.
\<close>

theorem toggle_recording_fps_counterexample:
  "fst (CameraHandler (Returns demo_capture) 0 Config world0) = Returns (camera demo_system)
   \<and> map_option actual_fps (cap (camera demo_system)) = Some 15
   \<and> map_option vw_fps (video_writer (fst (toggle_recording demo_now 0 demo_system world1))) =
       Some 30"
  by (simp add: CameraHandler_def initialize_camera_def demo_system_def demo_camera_def
        demo_capture_def toggle_recording_def Config_def Let_def)

subsection \<open>main.py: the exit status\<close>

lemma CameraHandler_unavailable:
  assumes "vc = Raises (Exception e) \<or> (\<exists>k. vc = Returns k \<and> \<not> isOpened k)"
  shows "\<exists>c w'. CameraHandler vc cid cfg w = (Returns c, w') \<and> \<not> is_available c"
  using assms
  by (auto simp: CameraHandler_def initialize_camera_def is_available_def Let_def)

lemma CameraHandler_available:
  assumes "vc = Returns k" and "isOpened k"
  shows "\<exists>c w'. CameraHandler vc cid cfg w = (Returns c, w') \<and> is_available c"
  using assms
  by (auto simp: CameraHandler_def initialize_camera_def is_available_def Let_def)

lemma ObjectDetector_loads:
  assumes "ld1 = Returns m \<or> (ld1 = Raises (Exception e1) \<and> ld2 = Returns m)"
  shows "\<exists>d w'. ObjectDetector ld1 ld2 t mp cfg w = (Returns d, w')"
  using assms
  by (auto simp: ObjectDetector_def load_model_def Let_def)

lemma ObjectDetectionSystem_camera:
  assumes "CameraHandler vc cid Config
             (create_directories Config
               (print (replicate 60 (CHR ''=''))
                 (print ''OBJECT DETECTION SYSTEM - YOLOv8''
                   (print (replicate 60 (CHR ''='')) w)))) = (Returns c, w5)"
    and "ObjectDetector ld1 ld2 t None Config w5 = (Returns d, w6)"
  shows "\<exists>s w1. ObjectDetectionSystem X vc ld1 ld2 t cid w = (Returns s, w1) \<and> camera s = c"
  using assms by (simp add: ObjectDetectionSystem_def Let_def)

lemma main_camera_unavailable:
  assumes nl: "\<not> arg_list_cameras a"
    and cam: "open_camera st = Raises (Exception e) \<or> (\<exists>k. open_camera st = Returns k \<and> \<not> isOpened k)"
    and ld: "load_first st = Returns m \<or> (load_first st = Raises (Exception e1) \<and> load_fallback st = Returns m)"
  shows "\<exists>w'. main X a st inputs w = Some (Returns (), w')
           \<and> last (trace w') = Print ''ERROR: Camera not available!''"
proof -
  let ?w4 = "create_directories Config
               (print (replicate 60 (CHR ''=''))
                 (print ''OBJECT DETECTION SYSTEM - YOLOv8''
                   (print (replicate 60 (CHR ''='')) w)))"
  obtain c w5 where c: "CameraHandler (open_camera st) (arg_camera a) Config ?w4 = (Returns c, w5)"
    and na: "\<not> is_available c"
    using CameraHandler_unavailable [OF cam] by blast
  obtain d w6 where d: "ObjectDetector (load_first st) (load_fallback st) (clock0 st) None Config w5
                          = (Returns d, w6)"
    using ObjectDetector_loads [OF ld] by blast
  obtain s w1 where s: "ObjectDetectionSystem X (open_camera st) (load_first st) (load_fallback st)
                          (clock0 st) (arg_camera a) w = (Returns s, w1)" and cs: "camera s = c"
    using ObjectDetectionSystem_camera [OF c d] by blast
  have "run X inputs s w1 = Some (s, print ''ERROR: Camera not available!'' w1)"
    using na cs by (simp add: run_def)
  then have "main X a st inputs w = Some (Returns (), print ''ERROR: Camera not available!'' w1)"
    using nl s by (simp add: main_def)
  then show ?thesis by simp
qed

lemma main_list_cameras:
  "arg_list_cameras a \<Longrightarrow> \<exists>w'. main X a st inputs w = Some (Returns (), w')"
  by (simp add: main_def Let_def)

lemma main_returns_normally:
  assumes "ObjectDetectionSystem X (open_camera st) (load_first st) (load_fallback st)
             (clock0 st) (arg_camera a) w = (Returns s, w1)"
    and "main X a st inputs w = Some (r, w')"
  shows "r = Returns ()"
  using assms by (auto simp: main_def Let_def split: if_splits option.splits)

text \<open>
  C2, as the code has it. \<open>main\<close> never sets an exit status, so the process exits with
  0 whenever \<open>main\<close> returns: after listing the cameras; when the camera cannot be
  opened at startup (the open fails or raises an \<open>Exception\<close>, and the model loads),
  where \<open>run\<close> prints \<open>ERROR: Camera not available!\<close> and returns before the loop; and
  after any run of a constructed system that comes to an end.
\<close>

theorem main_exit_code:
  "(arg_list_cameras a \<longrightarrow> map_option (exit_code \<circ> fst) (main X a st inputs w) = Some 0)
   \<and> (\<not> arg_list_cameras a
       \<and> (open_camera st = Raises (Exception e) \<or> (\<exists>k. open_camera st = Returns k \<and> \<not> isOpened k))
       \<and> (load_first st = Returns m \<or> (load_first st = Raises (Exception e1) \<and> load_fallback st = Returns m))
       \<longrightarrow> map_option (exit_code \<circ> fst) (main X a st inputs w) = Some 0
         \<and> map_option (last \<circ> trace \<circ> snd) (main X a st inputs w) =
             Some (Print ''ERROR: Camera not available!''))
   \<and> (ObjectDetectionSystem X (open_camera st) (load_first st) (load_fallback st)
             (clock0 st) (arg_camera a) w = (Returns s, w1)
       \<and> main X a st inputs w = Some (r, w')
       \<longrightarrow> exit_code r = 0)"
proof -
  have 1: "map_option (exit_code \<circ> fst) (main X a st inputs w) = Some 0" if "arg_list_cameras a"
    using main_list_cameras [OF that, of X st inputs w] by auto
  have 2: "map_option (exit_code \<circ> fst) (main X a st inputs w) = Some 0
         \<and> map_option (last \<circ> trace \<circ> snd) (main X a st inputs w) =
             Some (Print ''ERROR: Camera not available!'')"
    if "\<not> arg_list_cameras a"
      "open_camera st = Raises (Exception e) \<or> (\<exists>k. open_camera st = Returns k \<and> \<not> isOpened k)"
      "load_first st = Returns m \<or> (load_first st = Raises (Exception e1) \<and> load_fallback st = Returns m)"
    using main_camera_unavailable [OF that, of X inputs w] by auto
  have 3: "exit_code r = 0"
    if "ObjectDetectionSystem X (open_camera st) (load_first st) (load_fallback st)
             (clock0 st) (arg_camera a) w = (Returns s, w1)"
       "main X a st inputs w = Some (r, w')"
    using main_returns_normally [OF that] by simp
  show ?thesis using 1 2 3 by blast
qed

text \<open>
  C2, as the claim states it, fails: with no device behind camera 0, the process exits
  with code 0.
\<close>

theorem main_no_camera_counterexample:
  "map_option (exit_code \<circ> fst) (main demo_external run_args no_camera [] world0) = Some 0
   \<and> map_option (last \<circ> trace \<circ> snd) (main demo_external run_args no_camera [] world0) =
       Some (Print ''ERROR: Camera not available!'')"
proof -
  have "\<exists>w'. main demo_external run_args no_camera [] world0 = Some (Returns (), w')
           \<and> last (trace w') = Print ''ERROR: Camera not available!''"
    by (rule main_camera_unavailable [where m = "\<lparr>names = [(0, ''person'')]\<rparr>"])
      (simp_all add: run_args_def no_camera_def demo_capture_def)
  then show ?thesis by auto
qed

lemma demo_main_quit:
  "map_option fst (main demo_external run_args with_camera [quit_input] world0) = Some (Returns ())"
  by (simp add: main_def run_args_def with_camera_def no_camera_def quit_input_def demo_defs
        ObjectDetectionSystem_def CameraHandler_def initialize_camera_def ObjectDetector_def
        load_model_def create_directories_def display_system_info_def get_model_info_def
        run_def is_available_def tick_def read_frame_def alloc_def detect_objects_def py_int_def
        copy_def process_frame_def draw_fps_def calculate_fps_def handle_key_def ord_def
        cleanup_def release_def Config_def Let_def split_def)

theorem main_exit_code_witness:
  "map_option (exit_code \<circ> fst)
     (main demo_external (run_args\<lparr>arg_list_cameras := True\<rparr>) with_camera [] world0) = Some 0
   \<and> map_option (exit_code \<circ> fst) (main demo_external run_args no_camera [] world0) = Some 0
   \<and> map_option (exit_code \<circ> fst) (main demo_external run_args with_camera [quit_input] world0) =
       Some 0"
proof -
  have a: "map_option (exit_code \<circ> fst)
     (main demo_external (run_args\<lparr>arg_list_cameras := True\<rparr>) with_camera [] world0) = Some 0"
    using main_exit_code [of "run_args\<lparr>arg_list_cameras := True\<rparr>" demo_external with_camera "[]"
            world0]
    by (simp add: run_args_def)
  have b: "map_option (exit_code \<circ> fst) (main demo_external run_args no_camera [] world0) = Some 0"
    using main_exit_code [of run_args demo_external no_camera "[]" world0 "''none''"
            "\<lparr>names = [(0, ''person'')]\<rparr>"]
    by (simp add: run_args_def no_camera_def demo_capture_def)
  obtain w' where m: "main demo_external run_args with_camera [quit_input] world0 = Some (Returns (), w')"
    using demo_main_quit by auto
  obtain s w1 where s: "ObjectDetectionSystem demo_external (open_camera with_camera)
      (load_first with_camera) (load_fallback with_camera) (clock0 with_camera)
      (arg_camera run_args) world0 = (Returns s, w1)"
    using m by (auto simp: main_def run_args_def split: prod.splits outcome.splits option.splits)
  have "exit_code (Returns ()) = 0"
    using main_exit_code [of run_args demo_external with_camera "[quit_input]" world0 _ _ _ s w1
            "Returns ()" w']
      s m by blast
  then have c: "map_option (exit_code \<circ> fst)
      (main demo_external run_args with_camera [quit_input] world0) = Some 0"
    using m by simp
  show ?thesis using a b c by blast
qed

end
